theory Spec2Isabelle
  imports Complex_Main
begin

section \<open>Errors as values\<close>

text \<open>
  The notebooks are Python scripts over pandas, numpy and statsmodels. Every exception
  a statement can raise is a value of \<open>error\<close>; a computation that may raise returns
  \<open>error + 'a\<close> with \<open>Inl\<close> for the exception.
\<close>

datatype error = ParserError | KeyError string | NameError string | IndexError | ValueError | TypeError
  | ZeroDivisionError | LibraryError string

definition bind_err :: "error + 'a \<Rightarrow> ('a \<Rightarrow> error + 'b) \<Rightarrow> error + 'b" where
  "bind_err m f = (case m of Inl e \<Rightarrow> Inl e | Inr x \<Rightarrow> f x)"

section \<open>Quasi-binomial notebook: the variance function class \<open>vf\<close>\<close>

text \<open>
  \<^verbatim>\<open>
  class vf(sm.families.varfuncs.VarianceFunction):
      def __call__(self, mu):
          return mu ** 2 * (1 - mu) ** 2

      def deriv(self, mu):
          return 2 * mu - 6 * mu ** 2 + 4 * mu ** 3
  \<close>
  Python's \<open>**\<close> binds tighter than \<open>*\<close>. The methods are polymorphic in the number
  type (the notebook applies them to float arrays elementwise); the embedding keeps them
  polymorphic over commutative rings, so that they can be read over the rationals and
  over the reals.
\<close>

definition vf_call :: "'a::comm_ring_1 \<Rightarrow> 'a" where
  "vf_call mu = mu ^ 2 * (1 - mu) ^ 2"

definition vf_deriv :: "'a::comm_ring_1 \<Rightarrow> 'a" where
  "vf_deriv mu = 2 * mu - 6 * mu ^ 2 + 4 * mu ^ 3"

section \<open>Quasi-binomial notebook: loading the leaf blotch data\<close>

subsection \<open>The inline literal\<close>

text \<open>
  The triple-quoted literal handed to \<open>StringIO\<close>: ten lines of nine comma-separated
  decimal numerals, separated by newlines (no trailing newline).
\<close>

definition raw :: string where
  "raw = ''0.05,0.00,1.25,2.50,5.50,1.00,5.00,5.00,17.50'' @ [CHR 0x0A] @
         ''0.00,0.05,1.25,0.50,1.00,5.00,0.10,10.00,25.00'' @ [CHR 0x0A] @
         ''0.00,0.05,2.50,0.01,6.00,5.00,5.00,5.00,42.50'' @ [CHR 0x0A] @
         ''0.10,0.30,16.60,3.00,1.10,5.00,5.00,5.00,50.00'' @ [CHR 0x0A] @
         ''0.25,0.75,2.50,2.50,2.50,5.00,50.00,25.00,37.50'' @ [CHR 0x0A] @
         ''0.05,0.30,2.50,0.01,8.00,5.00,10.00,75.00,95.00'' @ [CHR 0x0A] @
         ''0.50,3.00,0.00,25.00,16.50,10.00,50.00,50.00,62.50'' @ [CHR 0x0A] @
         ''1.30,7.50,20.00,55.00,29.50,5.00,25.00,75.00,95.00'' @ [CHR 0x0A] @
         ''1.50,1.00,37.50,5.00,20.00,50.00,50.00,75.00,95.00'' @ [CHR 0x0A] @
         ''1.50,12.70,26.25,40.00,43.50,75.00,75.00,75.00,95.00''"

subsection \<open>Reading comma-separated text\<close>

text \<open>
  \<open>pd.read_csv(raw, header=None)\<close> is a call into pandas. Its behaviour on the text the
  notebooks hand to it is modelled here: the text is cut into lines at newlines (blank
  lines are skipped), each line into fields at commas, and each field is read as an
  unsigned decimal numeral with an optional fractional part. Numbers are exact
  rationals: the decimal numeral \<open>16.60\<close> is \<open>166/10\<close>. Text outside this format
  (signs, exponents, ragged rows) is reported as \<open>ParserError\<close>.
\<close>

fun split_acc :: "char \<Rightarrow> string \<Rightarrow> string \<Rightarrow> string list" where
  "split_acc c cur [] = [rev cur]"
| "split_acc c cur (x # xs) =
     (if x = c then rev cur # split_acc c [] xs else split_acc c (x # cur) xs)"

definition split_on :: "char \<Rightarrow> string \<Rightarrow> string list" where
  "split_on c s = split_acc c [] s"

definition digit_val :: "char \<Rightarrow> nat option" where
  "digit_val ch =
     (let n = (of_char ch :: nat) in if 48 \<le> n \<and> n \<le> 57 then Some (n - 48) else None)"

fun parse_digits :: "nat \<Rightarrow> string \<Rightarrow> nat option" where
  "parse_digits acc [] = Some acc"
| "parse_digits acc (ch # cs) =
     (case digit_val ch of None \<Rightarrow> None | Some d \<Rightarrow> parse_digits (10 * acc + d) cs)"

definition parse_nat :: "string \<Rightarrow> nat option" where
  "parse_nat s = (if s = [] then None else parse_digits 0 s)"

definition parse_decimal :: "string \<Rightarrow> rat option" where
  "parse_decimal s =
     (case split_on (CHR ''.'') s of
        [ip] \<Rightarrow> map_option of_nat (parse_nat ip)
      | [ip, fp] \<Rightarrow>
          (case (parse_nat ip, parse_nat fp) of
             (Some i, Some f) \<Rightarrow> Some (of_nat i + of_nat f / 10 ^ length fp)
           | _ \<Rightarrow> None)
      | _ \<Rightarrow> None)"

fun sequence_option :: "'a option list \<Rightarrow> 'a list option" where
  "sequence_option [] = Some []"
| "sequence_option (x # xs) =
     (case x of None \<Rightarrow> None
      | Some y \<Rightarrow> (case sequence_option xs of None \<Rightarrow> None | Some ys \<Rightarrow> Some (y # ys)))"

definition csv_lines :: "string \<Rightarrow> string list list" where
  "csv_lines txt =
     map (split_on (CHR '','')) (filter (\<lambda>l. l \<noteq> []) (split_on (CHR 0x0A) txt))"

definition read_csv :: "string \<Rightarrow> error + rat list list" where
  "read_csv txt =
     (case sequence_option (map (\<lambda>fs. sequence_option (map parse_decimal fs)) (csv_lines txt)) of
        None \<Rightarrow> Inl ParserError
      | Some t \<Rightarrow>
          (case t of
             [] \<Rightarrow> Inl ParserError
           | r # rs \<Rightarrow>
               if \<forall>r' \<in> set rs. length r' = length r then Inr t else Inl ParserError))"

subsection \<open>Data frames\<close>

text \<open>
  A data frame is an ordered list of named columns over a \<open>RangeIndex\<close>
  \<open>0, 1, \<dots>, n - 1\<close>. A column holds integers (\<open>int64\<close>) or floats (modelled as exact
  rationals).
\<close>

datatype column = IntCol "int list" | FloatCol "rat list"

type_synonym dataframe = "(string \<times> column) list"

fun col_len :: "column \<Rightarrow> nat" where
  "col_len (IntCol xs) = length xs"
| "col_len (FloatCol xs) = length xs"

definition nrows :: "dataframe \<Rightarrow> nat" where
  "nrows df = (case df of [] \<Rightarrow> 0 | (_, c) # _ \<Rightarrow> col_len c)"

definition df_index :: "dataframe \<Rightarrow> nat list" where
  "df_index df = [0..<nrows df]"

text \<open>
  \<open>df.melt()\<close> with no identifier columns stacks the columns of the table one after the
  other: column 0 top to bottom, then column 1, and so on. \<open>variable\<close> holds the label
  of the column a value came from (with \<open>header=None\<close> the labels are the positions),
  \<open>value\<close> the value.
\<close>

definition ncols :: "rat list list \<Rightarrow> nat" where
  "ncols t = (case t of [] \<Rightarrow> 0 | r # _ \<Rightarrow> length r)"

definition melt :: "rat list list \<Rightarrow> dataframe" where
  "melt t =
     [(''variable'', IntCol (concat (map (\<lambda>j. map (\<lambda>r. int j) t) [0..<ncols t]))),
      (''value'', FloatCol (concat (map (\<lambda>j. map (\<lambda>r. r ! j) t) [0..<ncols t])))]"

text \<open>\<open>df[name] = c\<close>: replaces the column in place if it exists, appends it otherwise;
  pandas raises \<open>ValueError\<close> when the length does not match the index.\<close>

fun put_col :: "string \<Rightarrow> column \<Rightarrow> dataframe \<Rightarrow> dataframe" where
  "put_col name c [] = [(name, c)]"
| "put_col name c ((n, d) # df) =
     (if n = name then (n, c) # df else (n, d) # put_col name c df)"

definition setitem :: "string \<Rightarrow> column \<Rightarrow> dataframe \<Rightarrow> error + dataframe" where
  "setitem name c df =
     (if df \<noteq> [] \<and> col_len c \<noteq> nrows df then Inl ValueError else Inr (put_col name c df))"

text \<open>\<open>df[name]\<close>: \<open>KeyError\<close> when there is no such column.\<close>

definition getitem :: "string \<Rightarrow> dataframe \<Rightarrow> error + column" where
  "getitem name df = (case map_of df name of None \<Rightarrow> Inl (KeyError name) | Some c \<Rightarrow> Inr c)"

text \<open>\<open>df.rename(columns={old: new})\<close>: labels that are absent are ignored.\<close>

definition rename :: "string \<Rightarrow> string \<Rightarrow> dataframe \<Rightarrow> dataframe" where
  "rename old new df = map (\<lambda>(n, c). (if n = old then new else n, c)) df"

text \<open>\<open>df.drop(name, axis=1)\<close>: \<open>KeyError\<close> when there is no such column.\<close>

definition drop_col :: "string \<Rightarrow> dataframe \<Rightarrow> error + dataframe" where
  "drop_col name df =
     (if name \<in> fst ` set df then Inr (filter (\<lambda>(n, c). n \<noteq> name) df)
      else Inl (KeyError name))"

text \<open>True division of a column by a scalar always yields floats.\<close>

fun truediv :: "column \<Rightarrow> rat \<Rightarrow> column" where
  "truediv (IntCol xs) d = FloatCol (map (\<lambda>x. of_int x / d) xs)"
| "truediv (FloatCol xs) d = FloatCol (map (\<lambda>x. x / d) xs)"

subsection \<open>The data-loading cell\<close>

text \<open>
  \<^verbatim>\<open>
  df = pd.read_csv(raw, header=None)
  df = df.melt()
  df["site"] = 1 + np.floor(df.index / 10).astype(int)
  df["variety"] = 1 + (df.index % 10)
  df = df.rename(columns={"value": "blotch"})
  df = df.drop("variable", axis=1)
  df["blotch"] /= 100
  \<close>
  \<open>df.index / 10\<close> is true division, \<open>np.floor\<close> rounds down and \<open>astype(int)\<close>
  converts the integral float back to an integer.
\<close>

definition site_of_index :: "nat \<Rightarrow> int" where
  "site_of_index i = 1 + \<lfloor>(of_nat i :: rat) / 10\<rfloor>"

definition variety_of_index :: "nat \<Rightarrow> int" where
  "variety_of_index i = 1 + (int i mod 10)"

definition prepare :: "rat list list \<Rightarrow> error + dataframe" where
  "prepare t =
     (let df = melt t in
      bind_err (setitem ''site'' (IntCol (map site_of_index (df_index df))) df) (\<lambda>df.
      bind_err (setitem ''variety'' (IntCol (map variety_of_index (df_index df))) df) (\<lambda>df.
      let df = rename ''value'' ''blotch'' df in
      bind_err (drop_col ''variable'' df) (\<lambda>df.
      bind_err (getitem ''blotch'' df) (\<lambda>b.
      setitem ''blotch'' (truediv b 100) df)))))"

definition load_df :: "error + dataframe" where
  "load_df = bind_err (read_csv raw) prepare"

section \<open>Meta-analysis notebook: the stratified contingency tables\<close>

subsection \<open>The inline literal\<close>

text \<open>
  The literal \<open>ss\<close> of the proportions example: a header line and seventeen data lines,
  each indented by four blanks inside the triple-quoted string; study 17 has empty
  fields in the columns \<open>e1i\<close>, \<open>c1i\<close>, \<open>e3i\<close> and \<open>c3i\<close>.
\<close>

definition ss :: string where
  "ss = ''    study,nei,nci,e1i,c1i,e2i,c2i,e3i,c3i,e4i,c4i'' @ [CHR 0x0A] @
        ''    1,19,22,16.0,20.0,11,12,4.0,8.0,4,3'' @ [CHR 0x0A] @
        ''    2,34,35,22.0,22.0,18,12,15.0,8.0,15,6'' @ [CHR 0x0A] @
        ''    3,72,68,44.0,40.0,21,15,10.0,3.0,3,0'' @ [CHR 0x0A] @
        ''    4,22,20,19.0,12.0,14,5,5.0,4.0,2,3'' @ [CHR 0x0A] @
        ''    5,70,32,62.0,27.0,42,13,26.0,6.0,15,5'' @ [CHR 0x0A] @
        ''    6,183,94,130.0,65.0,80,33,47.0,14.0,30,11'' @ [CHR 0x0A] @
        ''    7,26,50,24.0,30.0,13,18,5.0,10.0,3,9'' @ [CHR 0x0A] @
        ''    8,61,55,51.0,44.0,37,30,19.0,19.0,11,15'' @ [CHR 0x0A] @
        ''    9,36,25,30.0,17.0,23,12,13.0,4.0,10,4'' @ [CHR 0x0A] @
        ''    10,45,35,43.0,35.0,19,14,8.0,4.0,6,0'' @ [CHR 0x0A] @
        ''    11,246,208,169.0,139.0,106,76,67.0,42.0,51,35'' @ [CHR 0x0A] @
        ''    12,386,141,279.0,97.0,170,46,97.0,21.0,73,8'' @ [CHR 0x0A] @
        ''    13,59,32,56.0,30.0,34,17,21.0,9.0,20,7'' @ [CHR 0x0A] @
        ''    14,45,15,42.0,10.0,18,3,9.0,1.0,9,1'' @ [CHR 0x0A] @
        ''    15,14,18,14.0,18.0,13,14,12.0,13.0,9,12'' @ [CHR 0x0A] @
        ''    16,26,19,21.0,15.0,12,10,6.0,4.0,5,1'' @ [CHR 0x0A] @
        ''    17,74,75,,,42,40,,,23,30''"

subsection \<open>Arrays\<close>

text \<open>
  A two-dimensional numpy array is its shape and its elements in row-major (C) order;
  a three-dimensional one likewise. One-dimensional arrays are lists.
\<close>

record 'a matrix =
  nrow :: nat
  ncol :: nat
  cells :: "'a list"

record 'a array3 =
  dim0 :: nat
  dim1 :: nat
  dim2 :: nat
  cells3 :: "'a list"

subsection \<open>Reading the table and selecting integer columns\<close>

text \<open>
  \<open>pd.read_csv(io.StringIO(ss))\<close> takes the first line as the header. The model keeps
  the cells as text, one list per column. \<open>df3[names].values\<close> is modelled for columns
  whose cells are all unsigned integer numerals (as \<open>e2i\<close>, \<open>nei\<close>, \<open>c2i\<close> and \<open>nci\<close>
  are): it is the integer matrix with one row per data line and one column per name.
\<close>

type_synonym textframe = "(string \<times> string list) list"

definition read_csv_header :: "string \<Rightarrow> error + textframe" where
  "read_csv_header txt =
     (case csv_lines txt of
        [] \<Rightarrow> Inl ParserError
      | header # body \<Rightarrow>
          if \<forall>r \<in> set body. length r = length header
          then Inr (map (\<lambda>j. (header ! j, map (\<lambda>r. r ! j) body)) [0..<length header])
          else Inl ParserError)"

definition int_values :: "string list \<Rightarrow> textframe \<Rightarrow> error + int matrix" where
  "int_values names df =
     (case sequence_option (map (map_of df) names) of
        None \<Rightarrow> Inl (KeyError ''not in index'')
      | Some cols \<Rightarrow>
          (case sequence_option (map (\<lambda>c. sequence_option (map parse_nat c)) cols) of
             None \<Rightarrow> Inl TypeError
           | Some vs \<Rightarrow>
               let n = (case vs of [] \<Rightarrow> 0 | v # _ \<Rightarrow> length v) in
               Inr \<lparr>nrow = n, ncol = length vs,
                    cells = concat (map (\<lambda>i. map (\<lambda>v. int (v ! i)) vs) [0..<n])\<rparr>))"

subsection \<open>Array operations\<close>

text \<open>\<open>m.T\<close>: element \<open>(j, i)\<close> of the transpose is element \<open>(i, j)\<close> of \<open>m\<close>.\<close>

definition T :: "'a matrix \<Rightarrow> 'a matrix" where
  "T m = \<lparr>nrow = ncol m, ncol = nrow m,
          cells = concat (map (\<lambda>j. map (\<lambda>i. cells m ! (i * ncol m + j)) [0..<nrow m])
                              [0..<ncol m])\<rparr>"

text \<open>\<open>m[i, j] = v\<close>, and the same assignment through the transposed view \<open>m.T[i, j] = v\<close>,
  which writes element \<open>(j, i)\<close> of \<open>m\<close>.\<close>

definition setitem2 :: "'a matrix \<Rightarrow> nat \<Rightarrow> nat \<Rightarrow> 'a \<Rightarrow> error + 'a matrix" where
  "setitem2 m i j v =
     (if i < nrow m \<and> j < ncol m then Inr (m\<lparr>cells := (cells m)[i * ncol m + j := v]\<rparr>)
      else Inl IndexError)"

definition setitem2_T :: "'a matrix \<Rightarrow> nat \<Rightarrow> nat \<Rightarrow> 'a \<Rightarrow> error + 'a matrix" where
  "setitem2_T m i j v = setitem2 m j i v"

text \<open>\<open>t, nt, c, nc = dta_c\<close> iterates over the first axis and needs exactly four rows.\<close>

definition mat_rows :: "'a matrix \<Rightarrow> 'a list list" where
  "mat_rows m = map (\<lambda>i. take (ncol m) (drop (i * ncol m) (cells m))) [0..<nrow m]"

definition unpack4 :: "'a matrix \<Rightarrow> error + ('a list \<times> 'a list \<times> 'a list \<times> 'a list)" where
  "unpack4 m = (case mat_rows m of [a, b, c, d] \<Rightarrow> Inr (a, b, c, d) | _ \<Rightarrow> Inl ValueError)"

text \<open>Elementwise subtraction of two one-dimensional arrays of the same length.\<close>

definition vsub :: "'a::minus list \<Rightarrow> 'a list \<Rightarrow> error + 'a list" where
  "vsub xs ys = (if length xs = length ys then Inr (map2 (-) xs ys) else Inl ValueError)"

text \<open>\<open>np.column_stack\<close> makes the given one-dimensional arrays the columns of a matrix.\<close>

definition column_stack :: "'a list list \<Rightarrow> error + 'a matrix" where
  "column_stack vs =
     (case vs of
        [] \<Rightarrow> Inl ValueError
      | v # ws \<Rightarrow>
          if \<forall>w \<in> set ws. length w = length v
          then Inr \<lparr>nrow = length v, ncol = length vs,
                    cells = concat (map (\<lambda>k. map (\<lambda>w. w ! k) vs) [0..<length v])\<rparr>
          else Inl ValueError)"

text \<open>\<open>m.reshape(2, 2, -1)\<close> reads the elements of \<open>m\<close> in row-major order; the last
  dimension is inferred, and numpy raises \<open>ValueError\<close> when the size is not a multiple
  of four.\<close>

definition reshape_2_2 :: "'a matrix \<Rightarrow> error + 'a array3" where
  "reshape_2_2 m =
     (let n = nrow m * ncol m in
      if n mod 4 \<noteq> 0 then Inl ValueError
      else Inr \<lparr>dim0 = 2, dim1 = 2, dim2 = n div 4, cells3 = cells m\<rparr>)"

text \<open>\<open>a[i, j, k]\<close> for non-negative indices, and \<open>a.sum(1)\<close>, the sum over the middle axis.\<close>

definition getitem3 :: "'a array3 \<Rightarrow> nat \<Rightarrow> nat \<Rightarrow> nat \<Rightarrow> error + 'a" where
  "getitem3 a i j k =
     (if i < dim0 a \<and> j < dim1 a \<and> k < dim2 a
      then Inr (cells3 a ! ((i * dim1 a + j) * dim2 a + k)) else Inl IndexError)"

definition sum_axis1 :: "'a::monoid_add array3 \<Rightarrow> 'a matrix" where
  "sum_axis1 a = \<lparr>nrow = dim0 a, ncol = dim2 a,
       cells = concat (map (\<lambda>i. map (\<lambda>k.
                  sum_list (map (\<lambda>j. cells3 a ! ((i * dim1 a + j) * dim2 a + k)) [0..<dim1 a]))
                [0..<dim2 a]) [0..<dim0 a])\<rparr>"

subsection \<open>The cells that build \<open>dta_c\<close> and \<open>ctables\<close>\<close>

text \<open>
  \<^verbatim>\<open>
  df3 = pd.read_csv(io.StringIO(ss))
  df_12y = df3[["e2i", "nei", "c2i", "nci"]]
  dta = df_12y.values.T
  dta_c = dta.copy()
  dta_c.T[0, 0] = 18
  dta_c.T[1, 0] = 22
  \<close>
  \<open>copy\<close> gives \<open>dta_c\<close> its own elements; in the model arrays are values, so the copy is
  the array itself and the two assignments return the updated array.
\<close>

definition load_dta_c :: "error + int matrix" where
  "load_dta_c =
     bind_err (read_csv_header ss) (\<lambda>df3.
     bind_err (int_values [''e2i'', ''nei'', ''c2i'', ''nci''] df3) (\<lambda>v.
     let dta = T v in
     let dta_c = dta in
     bind_err (setitem2_T dta_c 0 0 18) (\<lambda>dta_c.
     setitem2_T dta_c 1 0 22)))"

text \<open>
  \<^verbatim>\<open>
  t, nt, c, nc = dta_c
  counts = np.column_stack([t, nt - t, c, nc - c])
  ctables = counts.T.reshape(2, 2, -1)
  \<close>
\<close>

definition make_ctables :: "'a::minus matrix \<Rightarrow> error + 'a array3" where
  "make_ctables dta_c =
     bind_err (unpack4 dta_c) (\<lambda>(t, nt, c, nc).
     bind_err (vsub nt t) (\<lambda>nt_t.
     bind_err (vsub nc c) (\<lambda>nc_c.
     bind_err (column_stack [t, nt_t, c, nc_c]) (\<lambda>counts.
     reshape_2_2 (T counts)))))"

section \<open>The functions the notebooks define\<close>

subsection \<open>Syntax\<close>

text \<open>
  The notebooks define four functions: the methods \<open>__call__\<close> and \<open>deriv\<close> of the class
  \<open>vf\<close>, the function \<open>fit_model\<close> and the lambda bound to \<open>get_y\<close>. To speak about
  what their bodies do themselves and what they hand to the library, the bodies are
  also kept as syntax trees, with the constructors of Python's \<open>ast\<close> module.
\<close>

datatype operator = Add | Sub | Mult | Pow

datatype expr =
    Name string
  | Num int
  | Str string
  | BinOp expr operator expr
  | ListE "expr list"
  | Attribute expr string
  | Subscript expr expr
  | Call expr "expr list" "(string \<times> expr) list"

datatype stmt = Assign string expr | Return expr

record funcdef =
  fname :: string
  params :: "string list"
  body :: "stmt list"

text \<open>
  \<^verbatim>\<open>
  def __call__(self, mu):
      return mu ** 2 * (1 - mu) ** 2
  \<close>
\<close>

definition vf_call_src :: funcdef where
  "vf_call_src = \<lparr>fname = ''vf.__call__'', params = [''self'', ''mu''], body =
     [Return (BinOp (BinOp (Name ''mu'') Pow (Num 2)) Mult
                    (BinOp (BinOp (Num 1) Sub (Name ''mu'')) Pow (Num 2)))]\<rparr>"

text \<open>
  \<^verbatim>\<open>
  def deriv(self, mu):
      return 2 * mu - 6 * mu ** 2 + 4 * mu ** 3
  \<close>
\<close>

definition vf_deriv_src :: funcdef where
  "vf_deriv_src = \<lparr>fname = ''vf.deriv'', params = [''self'', ''mu''], body =
     [Return (BinOp (BinOp (BinOp (Num 2) Mult (Name ''mu'')) Sub
                           (BinOp (Num 6) Mult (BinOp (Name ''mu'') Pow (Num 2)))) Add
                    (BinOp (Num 4) Mult (BinOp (Name ''mu'') Pow (Num 3))))]\<rparr>"

text \<open>
  \<^verbatim>\<open>
  def fit_model(q):
      res = mod.fit(q=q)
      return [q, res.params['Intercept'], res.params['income']] + \
              res.conf_int().ix['income'].tolist()
  \<close>
\<close>

definition fit_model_src :: funcdef where
  "fit_model_src = \<lparr>fname = ''fit_model'', params = [''q''], body =
     [Assign ''res'' (Call (Attribute (Name ''mod'') ''fit'') [] [(''q'', Name ''q'')]),
      Return (BinOp
        (ListE [Name ''q'',
                Subscript (Attribute (Name ''res'') ''params'') (Str ''Intercept''),
                Subscript (Attribute (Name ''res'') ''params'') (Str ''income'')])
        Add
        (Call (Attribute
                 (Subscript (Attribute (Call (Attribute (Name ''res'') ''conf_int'') [] []) ''ix'')
                            (Str ''income''))
                 ''tolist'') [] []))]\<rparr>"

text \<open>
  \<^verbatim>\<open>
  get_y = lambda a, b: a + b * x
  \<close>
  \<open>x\<close> is the global array \<open>np.arange(data.income.min(), data.income.max(), 50)\<close>.
\<close>

definition get_y_src :: funcdef where
  "get_y_src = \<lparr>fname = ''get_y'', params = [''a'', ''b''], body =
     [Return (BinOp (Name ''a'') Add (BinOp (Name ''b'') Mult (Name ''x'')))]\<rparr>"

definition notebook_functions :: "funcdef list" where
  "notebook_functions = [vf_call_src, vf_deriv_src, fit_model_src, get_y_src]"

subsection \<open>Evaluation\<close>

text \<open>
  Values are numbers (exact rationals for floats), strings, Python lists, numeric
  arrays, \<open>None\<close>, and handles of objects that belong to the library (models, results,
  series). What the library does with its objects is not part of the notebooks: it is
  a parameter \<open>lib\<close> of the evaluation, and each of its operations may raise.
\<close>

datatype val = VNum rat | VStr string | VList "val list" | VArr "rat list" | VNone | VObj nat

record library =
  call_method :: "val \<Rightarrow> string \<Rightarrow> val list \<Rightarrow> (string \<times> val) list \<Rightarrow> error + val"
  get_attr :: "val \<Rightarrow> string \<Rightarrow> error + val"
  get_item :: "val \<Rightarrow> val \<Rightarrow> error + val"
  operator_on :: "operator \<Rightarrow> val \<Rightarrow> val \<Rightarrow> error + val"

text \<open>
  Arithmetic on two numbers, where the result is a rational number: \<open>+\<close>, \<open>-\<close>, \<open>*\<close>,
  and \<open>**\<close> with an exponent that is a natural number (the only exponents the notebooks
  write). What a negative or fractional exponent yields is not interpreted here.
\<close>

definition num_op :: "operator \<Rightarrow> rat \<Rightarrow> rat \<Rightarrow> rat option" where
  "num_op op a b =
     (case op of
        Add \<Rightarrow> Some (a + b)
      | Sub \<Rightarrow> Some (a - b)
      | Mult \<Rightarrow> Some (a * b)
      | Pow \<Rightarrow> if 0 \<le> b \<and> b = of_int \<lfloor>b\<rfloor> then Some (a ^ nat \<lfloor>b\<rfloor>) else None)"

text \<open>
  numpy pairs the elements of two one-dimensional arrays of the same length, stretches
  an array of length one to the length of the other, and raises \<open>ValueError\<close>
  otherwise.
\<close>

definition broadcast :: "rat list \<Rightarrow> rat list \<Rightarrow> error + (rat \<times> rat) list" where
  "broadcast xs ys =
     (if length xs = length ys then Inr (zip xs ys)
      else if length xs = 1 then Inr (map (\<lambda>y. (hd xs, y)) ys)
      else if length ys = 1 then Inr (map (\<lambda>x. (x, hd ys)) xs)
      else Inl ValueError)"

definition elementwise :: "operator \<Rightarrow> rat list \<Rightarrow> rat list \<Rightarrow> (error + val \<times> nat) option" where
  "elementwise op xs ys =
     (case broadcast xs ys of
        Inl e \<Rightarrow> Some (Inl e)
      | Inr ps \<Rightarrow>
          map_option (\<lambda>rs. Inr (VArr rs, 1))
            (sequence_option (map (\<lambda>(x, y). num_op op x y) ps)))"

text \<open>A list whose items are all numbers is what numpy turns into an array.\<close>

fun numbers :: "val list \<Rightarrow> rat list option" where
  "numbers [] = Some []"
| "numbers (VNum a # vs) = map_option ((#) a) (numbers vs)"
| "numbers (v # vs) = None"

text \<open>
  The operator applications the model interprets, with their result and whether they
  are arithmetic (1) or not (0). Two numbers, a number and an array, and two arrays
  combine elementwise, and so do a list of numbers and an array, since the array's
  reflected operator converts the list (\<open>[1, 2] + np.array([3, 4])\<close> is
  \<open>array([4, 6])\<close>). \<open>+\<close> on two lists is concatenation, which is not arithmetic.
\<close>

fun interpreted :: "operator \<Rightarrow> val \<Rightarrow> val \<Rightarrow> (error + val \<times> nat) option" where
  "interpreted op (VNum a) (VNum b) = map_option (\<lambda>r. Inr (VNum r, 1)) (num_op op a b)"
| "interpreted op (VNum a) (VArr ys) = elementwise op [a] ys"
| "interpreted op (VArr xs) (VNum b) = elementwise op xs [b]"
| "interpreted op (VArr xs) (VArr ys) = elementwise op xs ys"
| "interpreted op (VList vs) (VArr ys) =
     (case numbers vs of None \<Rightarrow> None | Some xs \<Rightarrow> elementwise op xs ys)"
| "interpreted op (VArr xs) (VList vs) =
     (case numbers vs of None \<Rightarrow> None | Some ys \<Rightarrow> elementwise op xs ys)"
| "interpreted Add (VList xs) (VList ys) = Some (Inr (VList (xs @ ys), 0))"
| "interpreted op a b = None"

text \<open>
  Every other operator application (on a string, on \<open>None\<close>, on a handle, on a list and
  a number, a power the rationals cannot express) depends on the Python types of the
  operands and on the operators the libraries overload: its outcome is the library
  parameter's, and it is counted, since it may be arithmetic.
\<close>

definition bin_op :: "library \<Rightarrow> operator \<Rightarrow> val \<Rightarrow> val \<Rightarrow> error + (val \<times> nat)" where
  "bin_op lib op a b =
     (case interpreted op a b of
        Some r \<Rightarrow> r
      | None \<Rightarrow> bind_err (operator_on lib op a b) (\<lambda>v. Inr (v, 1)))"

text \<open>
  Evaluating an expression yields its value and the number of arithmetic operations
  the expression performed itself (every operator it applied, list concatenation
  apart). A call \<open>e.m(args)\<close>, an attribute \<open>e.a\<close> and a subscript \<open>e[i]\<close> are handed to
  the library; calling any other value \<open>v\<close> is its method \<open>__call__\<close>.
\<close>

fun eval :: "library \<Rightarrow> (string \<rightharpoonup> val) \<Rightarrow> expr \<Rightarrow> error + (val \<times> nat)"
  and evals :: "library \<Rightarrow> (string \<rightharpoonup> val) \<Rightarrow> expr list \<Rightarrow> error + (val list \<times> nat)"
  and eval_kws :: "library \<Rightarrow> (string \<rightharpoonup> val) \<Rightarrow> (string \<times> expr) list
                    \<Rightarrow> error + ((string \<times> val) list \<times> nat)" where
  "eval lib env (Name x) =
     (case env x of None \<Rightarrow> Inl (NameError x) | Some v \<Rightarrow> Inr (v, 0))"
| "eval lib env (Num n) = Inr (VNum (of_int n), 0)"
| "eval lib env (Str s) = Inr (VStr s, 0)"
| "eval lib env (BinOp l op r) =
     bind_err (eval lib env l) (\<lambda>(a, m).
     bind_err (eval lib env r) (\<lambda>(b, n).
     bind_err (bin_op lib op a b) (\<lambda>(v, k). Inr (v, m + n + k))))"
| "eval lib env (ListE es) =
     bind_err (evals lib env es) (\<lambda>(vs, n). Inr (VList vs, n))"
| "eval lib env (Attribute e a) =
     bind_err (eval lib env e) (\<lambda>(v, n).
     bind_err (get_attr lib v a) (\<lambda>r. Inr (r, n)))"
| "eval lib env (Subscript e i) =
     bind_err (eval lib env e) (\<lambda>(v, m).
     bind_err (eval lib env i) (\<lambda>(j, n).
     bind_err (get_item lib v j) (\<lambda>r. Inr (r, m + n))))"
| "eval lib env (Call f args kws) =
     bind_err
       (case f of
          Attribute e m \<Rightarrow> bind_err (eval lib env e) (\<lambda>(v, n). Inr (v, m, n))
        | _ \<Rightarrow> bind_err (eval lib env f) (\<lambda>(v, n). Inr (v, ''__call__'', n)))
       (\<lambda>(v, m, n).
     bind_err (evals lib env args) (\<lambda>(vs, n1).
     bind_err (eval_kws lib env kws) (\<lambda>(ks, n2).
     bind_err (call_method lib v m vs ks) (\<lambda>r. Inr (r, n + n1 + n2)))))"
| "evals lib env [] = Inr ([], 0)"
| "evals lib env (e # es) =
     bind_err (eval lib env e) (\<lambda>(v, m).
     bind_err (evals lib env es) (\<lambda>(vs, n). Inr (v # vs, m + n)))"
| "eval_kws lib env [] = Inr ([], 0)"
| "eval_kws lib env ((k, e) # kws) =
     bind_err (eval lib env e) (\<lambda>(v, m).
     bind_err (eval_kws lib env kws) (\<lambda>(ks, n). Inr ((k, v) # ks, m + n)))"

text \<open>A body runs its statements in order; falling off the end returns \<open>None\<close>.\<close>

fun exec_body :: "library \<Rightarrow> (string \<rightharpoonup> val) \<Rightarrow> stmt list \<Rightarrow> error + (val \<times> nat)" where
  "exec_body lib env [] = Inr (VNone, 0)"
| "exec_body lib env (Assign x e # rest) =
     bind_err (eval lib env e) (\<lambda>(v, m).
     bind_err (exec_body lib (env(x \<mapsto> v)) rest) (\<lambda>(r, n). Inr (r, m + n)))"
| "exec_body lib env (Return e # rest) = eval lib env e"

text \<open>
  Calling a function binds its parameters over the global variables; a wrong number
  of arguments raises \<open>TypeError\<close>.
\<close>

definition call_function ::
  "library \<Rightarrow> (string \<rightharpoonup> val) \<Rightarrow> funcdef \<Rightarrow> val list \<Rightarrow> error + (val \<times> nat)" where
  "call_function lib globals f args =
     (if length args \<noteq> length (params f) then Inl TypeError
      else exec_body lib (globals ++ map_of (zip (params f) args)) (body f))"

text \<open>Three libraries to run the functions against: one in which every operation raises,
  one that answers the operations \<open>fit_model\<close> asks for, and one whose \<open>tolist\<close> answers
  an array instead of a list.\<close>

definition failing_lib :: library where
  "failing_lib = \<lparr>call_method = (\<lambda>v m args kws. Inl (LibraryError m)),
                   get_attr = (\<lambda>v a. Inl (LibraryError a)),
                   get_item = (\<lambda>v i. Inl (LibraryError ''getitem'')),
                   operator_on = (\<lambda>op a b. Inl TypeError)\<rparr>"

definition demo_lib :: library where
  "demo_lib = \<lparr>
     call_method = (\<lambda>v m args kws.
       if m = ''fit'' then Inr (VObj 1)
       else if m = ''conf_int'' then Inr (VObj 3)
       else if m = ''tolist'' then Inr (VList [VNum 0.5, VNum 0.75])
       else Inl (LibraryError m)),
     get_attr = (\<lambda>v a.
       if a = ''params'' then Inr (VObj 2)
       else if a = ''ix'' then Inr (VObj 4)
       else Inl (LibraryError a)),
     get_item = (\<lambda>v i.
       if v = VObj 2 \<and> i = VStr ''Intercept'' then Inr (VNum 81.5)
       else if v = VObj 2 \<and> i = VStr ''income'' then Inr (VNum 0.56)
       else if v = VObj 4 then Inr (VObj 5)
       else Inl (KeyError ''getitem'')),
     operator_on = (\<lambda>op a b. Inl TypeError)\<rparr>"

definition array_lib :: library where
  "array_lib = demo_lib\<lparr>call_method := (\<lambda>v m args kws.
       if m = ''tolist'' then Inr (VArr [1]) else call_method demo_lib v m args kws)\<rparr>"

section \<open>Running a notebook\<close>

subsection \<open>Statements\<close>

text \<open>
  A code cell is a list of statements. A simple statement (an import, an assignment,
  an expression, a \<open>print\<close>, a \<open>return\<close>, an IPython magic) is kept as its source text.
  The compound statements the notebooks write are \<open>def\<close>, \<open>class\<close> and \<open>for\<close>, each with
  its header line and its body; \<open>try\<close> with one \<open>except\<close> clause is part of the
  language so that handling an exception has a meaning.
\<close>

datatype statement =
    Simple string
  | FuncDef string "statement list"
  | ClassDef string "statement list"
  | For string "statement list"
  | Try "statement list" string "statement list"

type_synonym cell = "statement list"

type_synonym notebook = "cell list"

text \<open>A statement contains no exception handler if no \<open>try\<close> occurs in it at any depth.\<close>

fun handler_free :: "statement \<Rightarrow> bool" where
  "handler_free (Simple s) = True"
| "handler_free (FuncDef h b) = list_all handler_free b"
| "handler_free (ClassDef h b) = list_all handler_free b"
| "handler_free (For h b) = list_all handler_free b"
| "handler_free (Try b c h) = False"

subsection \<open>Execution\<close>

text \<open>
  What a simple statement does to the state of the kernel, calls into the libraries
  included, is a parameter: it returns the new state and the exception it raised, if
  any. So are binding a function (\<open>def_stmt\<close>, which does not run the body), the values
  a \<open>for\<close> header iterates over (one binding of the loop variable per iteration), and
  which exceptions an \<open>except\<close> clause catches.
\<close>

record 'st interpreter =
  simple :: "string \<Rightarrow> 'st \<Rightarrow> 'st \<times> error option"
  def_stmt :: "string \<Rightarrow> statement list \<Rightarrow> 'st \<Rightarrow> 'st \<times> error option"
  iterate :: "string \<Rightarrow> 'st \<Rightarrow> error + ('st \<Rightarrow> 'st) list"
  catches :: "string \<Rightarrow> error \<Rightarrow> bool"

text \<open>The run of a statement is recorded: each statement that ran to its end, and the
  statement that raised.\<close>

datatype event = Ran string | Raised string error

fun is_Ran :: "event \<Rightarrow> bool" where
  "is_Ran (Ran s) = True"
| "is_Ran (Raised s e) = False"

text \<open>
  Statements run in order; the first exception ends the list. A \<open>class\<close> statement
  evaluates its header and runs its body. A \<open>for\<close> statement evaluates its header and
  runs its body once per binding. A \<open>try\<close> statement runs its body; if that raises an
  exception the clause catches, the handler runs from the state the body left, and the
  exception is gone.
\<close>

fun exec :: "'st interpreter \<Rightarrow> statement \<Rightarrow> 'st \<Rightarrow> event list \<times> 'st \<times> error option"
  and exec_list :: "'st interpreter \<Rightarrow> statement list \<Rightarrow> 'st \<Rightarrow> event list \<times> 'st \<times> error option"
  and exec_for :: "'st interpreter \<Rightarrow> statement list \<Rightarrow> ('st \<Rightarrow> 'st) list \<Rightarrow> 'st
                    \<Rightarrow> event list \<times> 'st \<times> error option" where
  "exec I (Simple s) st =
     (case simple I s st of
        (st', None) \<Rightarrow> ([Ran s], st', None)
      | (st', Some e) \<Rightarrow> ([Raised s e], st', Some e))"
| "exec I (FuncDef h b) st =
     (case def_stmt I h b st of
        (st', None) \<Rightarrow> ([Ran h], st', None)
      | (st', Some e) \<Rightarrow> ([Raised h e], st', Some e))"
| "exec I (ClassDef h b) st =
     (case simple I h st of
        (st', Some e) \<Rightarrow> ([Raised h e], st', Some e)
      | (st', None) \<Rightarrow>
          (case exec_list I b st' of (tr, st'', r) \<Rightarrow> (Ran h # tr, st'', r)))"
| "exec I (For h b) st =
     (case iterate I h st of
        Inl e \<Rightarrow> ([Raised h e], st, Some e)
      | Inr binds \<Rightarrow>
          (case exec_for I b binds st of (tr, st', r) \<Rightarrow> (Ran h # tr, st', r)))"
| "exec I (Try b c h) st =
     (case exec_list I b st of
        (tr, st', None) \<Rightarrow> (tr, st', None)
      | (tr, st', Some e) \<Rightarrow>
          if catches I c e
          then (case exec_list I h st' of (tr2, st2, r) \<Rightarrow> (tr @ tr2, st2, r))
          else (tr, st', Some e))"
| "exec_list I [] st = ([], st, None)"
| "exec_list I (x # xs) st =
     (case exec I x st of
        (tr, st', Some e) \<Rightarrow> (tr, st', Some e)
      | (tr, st', None) \<Rightarrow>
          (case exec_list I xs st' of (tr2, st2, r) \<Rightarrow> (tr @ tr2, st2, r)))"
| "exec_for I b [] st = ([], st, None)"
| "exec_for I b (f # fs) st =
     (case exec_list I b (f st) of
        (tr, st', Some e) \<Rightarrow> (tr, st', Some e)
      | (tr, st', None) \<Rightarrow>
          (case exec_for I b fs st' of (tr2, st2, r) \<Rightarrow> (tr @ tr2, st2, r)))"

text \<open>
  A notebook runs its code cells in source order from the first; a cell that raises
  ends the run. The result lists the cells that were entered, each with its number and
  its events, the final state, and the exception that ended the run, if any.
\<close>

fun run_cells :: "'st interpreter \<Rightarrow> nat \<Rightarrow> cell list \<Rightarrow> 'st
                    \<Rightarrow> (nat \<times> event list) list \<times> 'st \<times> error option" where
  "run_cells I i [] st = ([], st, None)"
| "run_cells I i (c # cs) st =
     (case exec_list I c st of
        (tr, st', Some e) \<Rightarrow> ([(i, tr)], st', Some e)
      | (tr, st', None) \<Rightarrow>
          (case run_cells I (Suc i) cs st' of (rest, st2, r) \<Rightarrow> ((i, tr) # rest, st2, r)))"

definition run_notebook :: "'st interpreter \<Rightarrow> notebook \<Rightarrow> 'st
                    \<Rightarrow> (nat \<times> event list) list \<times> 'st \<times> error option" where
  "run_notebook I nb st = run_cells I 0 nb st"

subsection \<open>The code cells of the three notebooks\<close>

text \<open>
  The code cells of each notebook, in source order, statement by statement. Comment
  lines between statements are not statements and are left out; an empty cell is the
  empty list.
\<close>

definition quasibinomial_nb :: notebook where
  \<open>quasibinomial_nb =
   [[Simple ''import statsmodels.api as sm'',
     Simple ''import numpy as np'',
     Simple ''import pandas as pd'',
     Simple ''import matplotlib.pyplot as plt'',
     Simple ''from io import StringIO''],

    [Simple (''raw = StringIO('' @ [CHR 0x0A] @
             ''    """0.05,0.00,1.25,2.50,5.50,1.00,5.00,5.00,17.50'' @ [CHR 0x0A] @
             ''0.00,0.05,1.25,0.50,1.00,5.00,0.10,10.00,25.00'' @ [CHR 0x0A] @
             ''0.00,0.05,2.50,0.01,6.00,5.00,5.00,5.00,42.50'' @ [CHR 0x0A] @
             ''0.10,0.30,16.60,3.00,1.10,5.00,5.00,5.00,50.00'' @ [CHR 0x0A] @
             ''0.25,0.75,2.50,2.50,2.50,5.00,50.00,25.00,37.50'' @ [CHR 0x0A] @
             ''0.05,0.30,2.50,0.01,8.00,5.00,10.00,75.00,95.00'' @ [CHR 0x0A] @
             ''0.50,3.00,0.00,25.00,16.50,10.00,50.00,50.00,62.50'' @ [CHR 0x0A] @
             ''1.30,7.50,20.00,55.00,29.50,5.00,25.00,75.00,95.00'' @ [CHR 0x0A] @
             ''1.50,1.00,37.50,5.00,20.00,50.00,50.00,75.00,95.00'' @ [CHR 0x0A] @
             ''1.50,12.70,26.25,40.00,43.50,75.00,75.00,75.00,95.00"""'' @ [CHR 0x0A] @
             '')'')],

    [Simple ''df = pd.read_csv(raw, header=None)'',
     Simple ''df = df.melt()'',
     Simple ''df["site"] = 1 + np.floor(df.index / 10).astype(int)'',
     Simple ''df["variety"] = 1 + (df.index % 10)'',
     Simple ''df = df.rename(columns={"value": "blotch"})'',
     Simple ''df = df.drop("variable", axis=1)'',
     Simple ''df["blotch"] /= 100''],

    [Simple (''model1 = sm.GLM.from_formula('' @ [CHR 0x0A] @
             ''    "blotch ~ 0 + C(variety) + C(site)", family=sm.families.Binomial(), data=df'' @ [CHR 0x0A] @
             '')''),
     Simple ''result1 = model1.fit(scale="X2")'',
     Simple ''print(result1.summary())''],

    [Simple ''plt.clf()'',
     Simple ''plt.grid(True)'',
     Simple ''plt.plot(result1.predict(linear=True), result1.resid_pearson, "o")'',
     Simple ''plt.xlabel("Linear predictor")'',
     Simple ''plt.ylabel("Residual")''],

    [ClassDef ''class vf(sm.families.varfuncs.VarianceFunction):''
       [FuncDef ''    def __call__(self, mu):''
          [Simple ''        return mu ** 2 * (1 - mu) ** 2''],
        FuncDef ''    def deriv(self, mu):''
          [Simple ''        return 2 * mu - 6 * mu ** 2 + 4 * mu ** 3'']]],

    [Simple ''bin = sm.families.Binomial()'',
     Simple ''bin.variance = vf()'',
     Simple ''model2 = sm.GLM.from_formula("blotch ~ 0 + C(variety) + C(site)", family=bin, data=df)'',
     Simple ''result2 = model2.fit(scale="X2")'',
     Simple ''print(result2.summary())''],

    [Simple ''plt.clf()'',
     Simple ''plt.grid(True)'',
     Simple ''plt.plot(result2.predict(linear=True), result2.resid_pearson, "o")'',
     Simple ''plt.xlabel("Linear predictor")'',
     Simple ''plt.ylabel("Residual")'']]\<close>

definition quantile_regression_nb :: notebook where
  \<open>quantile_regression_nb =
   [[Simple ''import patsy'',
     Simple ''import numpy as np'',
     Simple ''import pandas as pd'',
     Simple ''import statsmodels.api as sm'',
     Simple ''import statsmodels.formula.api as smf'',
     Simple ''import matplotlib.pyplot as plt'',
     Simple ''from statsmodels.regression.quantile_regression import QuantReg'',
     Simple ''data = sm.datasets.engel.load_pandas().data'',
     Simple ''data.head()''],

    [Simple ''mod = smf.quantreg('foodexp ~ income', data)'',
     Simple ''res = mod.fit(q=.5)'',
     Simple ''print res.summary()''],

    [Simple ''quantiles = np.arange(.05, .96, .1)'',
     FuncDef ''def fit_model(q):''
       [Simple ''    res = mod.fit(q=q)'',
        Simple (''    return [q, res.params['Intercept'], res.params['income']] + '' @ [CHR 0x5C] @ [CHR 0x0A] @
                ''            res.conf_int().ix['income'].tolist()'')],
     Simple ''models = [fit_model(x) for x in quantiles]'',
     Simple ''models = pd.DataFrame(models, columns=['q', 'a', 'b','lb','ub'])'',
     Simple ''ols = smf.ols('foodexp ~ income', data).fit()'',
     Simple ''ols_ci = ols.conf_int().ix['income'].tolist()'',
     Simple (''ols = dict(a = ols.params['Intercept'],'' @ [CHR 0x0A] @
             ''           b = ols.params['income'],'' @ [CHR 0x0A] @
             ''           lb = ols_ci[0],'' @ [CHR 0x0A] @
             ''           ub = ols_ci[1])''),
     Simple ''print models'',
     Simple ''print ols''],

    [Simple ''x = np.arange(data.income.min(), data.income.max(), 50)'',
     Simple ''get_y = lambda a, b: a + b * x'',
     Simple ''fig, ax = plt.subplots(figsize=(8, 6))'',
     For ''for i in range(models.shape[0]):''
       [Simple ''    y = get_y(models.a[i], models.b[i])'',
        Simple ''    ax.plot(x, y, linestyle='dotted', color='grey')''],
     Simple ''y = get_y(ols['a'], ols['b'])'',
     Simple ''ax.plot(x, y, color='red', label='OLS')'',
     Simple ''ax.scatter(data.income, data.foodexp, alpha=.2)'',
     Simple ''ax.set_xlim((240, 3000))'',
     Simple ''ax.set_ylim((240, 2000))'',
     Simple ''legend = ax.legend()'',
     Simple ''ax.set_xlabel('Income', fontsize=16)'',
     Simple ''ax.set_ylabel('Food expenditure', fontsize=16);''],

    [Simple ''from matplotlib import rc'',
     Simple ''rc('text', usetex=True)'',
     Simple ''n = models.shape[0]'',
     Simple ''p1 = plt.plot(models.q, models.b, color='black', label='Quantile Reg.')'',
     Simple ''p2 = plt.plot(models.q, models.ub, linestyle='dotted', color='black')'',
     Simple ''p3 = plt.plot(models.q, models.lb, linestyle='dotted', color='black')'',
     Simple ''p4 = plt.plot(models.q, [ols['b']] * n, color='red', label='OLS')'',
     Simple ''p5 = plt.plot(models.q, [ols['lb']] * n, linestyle='dotted', color='red')'',
     Simple ''p6 = plt.plot(models.q, [ols['ub']] * n, linestyle='dotted', color='red')'',
     Simple (''plt.ylabel(r'' @ [CHR 0x27] @ [CHR 0x5C] @ ''beta_'' @ [CHR 0x5C] @ ''mbox{income}')''),
     Simple ''plt.xlabel('Quantiles of the conditional food expenditure distribution')'',
     Simple ''plt.legend()'',
     Simple ''plt.show()'']]\<close>

definition metaanalysis1_nb :: notebook where
  \<open>metaanalysis1_nb =
   [[Simple ''%matplotlib inline''],

    [Simple ''import numpy as np'',
     Simple ''import pandas as pd'',
     Simple ''from scipy import stats, optimize'',
     Simple ''from statsmodels.regression.linear_model import WLS'',
     Simple ''from statsmodels.genmod.generalized_linear_model import GLM'',
     Simple (''from statsmodels.stats.meta_analysis import ('' @ [CHR 0x0A] @
             ''    effectsize_smd,'' @ [CHR 0x0A] @
             ''    effectsize_2proportions,'' @ [CHR 0x0A] @
             ''    combine_effects,'' @ [CHR 0x0A] @
             ''    _fit_tau_iterative,'' @ [CHR 0x0A] @
             ''    _fit_tau_mm,'' @ [CHR 0x0A] @
             ''    _fit_tau_iter_mm,'' @ [CHR 0x0A] @
             '')''),
     Simple ''pd.set_option("display.width", 100)''],

    [Simple (''data = ['' @ [CHR 0x0A] @
             ''    ["Carroll", 94, 22, 60, 92, 20, 60],'' @ [CHR 0x0A] @
             ''    ["Grant", 98, 21, 65, 92, 22, 65],'' @ [CHR 0x0A] @
             ''    ["Peck", 98, 28, 40, 88, 26, 40],'' @ [CHR 0x0A] @
             ''    ["Donat", 94, 19, 200, 82, 17, 200],'' @ [CHR 0x0A] @
             ''    ["Stewart", 98, 21, 50, 88, 22, 45],'' @ [CHR 0x0A] @
             ''    ["Young", 96, 21, 85, 92, 22, 85],'' @ [CHR 0x0A] @
             '']''),
     Simple ''colnames = ["study", "mean_t", "sd_t", "n_t", "mean_c", "sd_c", "n_c"]'',
     Simple ''rownames = [i[0] for i in data]'',
     Simple ''dframe1 = pd.DataFrame(data, columns=colnames)'',
     Simple ''rownames''],

    [Simple (''mean2, sd2, nobs2, mean1, sd1, nobs1 = np.asarray('' @ [CHR 0x0A] @
             ''    dframe1[["mean_t", "sd_t", "n_t", "mean_c", "sd_c", "n_c"]]'' @ [CHR 0x0A] @
             '').T''),
     Simple ''rownames = dframe1["study"]'',
     Simple ''rownames.tolist()''],

    [Simple ''np.array(nobs1 + nobs2)''],

    [Simple ''eff, var_eff = effectsize_smd(mean2, sd2, nobs2, mean1, sd1, nobs1)''],

    [Simple ''res3 = combine_effects(eff, var_eff, method_re="chi2", use_t=True, row_names=rownames)'',
     Simple ''res3.conf_int_samples(nobs=np.array(nobs1 + nobs2))'',
     Simple ''print(res3.summary_frame())''],

    [Simple ''res3.cache_ci''],

    [Simple ''res3.method_re''],

    [Simple ''fig = res3.plot_forest()'',
     Simple ''fig.set_figheight(6)'',
     Simple ''fig.set_figwidth(6)''],

    [Simple ''res3 = combine_effects(eff, var_eff, method_re="chi2", use_t=False, row_names=rownames)'',
     Simple ''res3.conf_int_samples(nobs=np.array(nobs1 + nobs2))'',
     Simple ''print(res3.summary_frame())''],

    [Simple (''res4 = combine_effects('' @ [CHR 0x0A] @
             ''    eff, var_eff, method_re="iterated", use_t=False, row_names=rownames'' @ [CHR 0x0A] @
             '')''),
     Simple ''res4_df = res4.summary_frame()'',
     Simple ''print("method RE:", res4.method_re)'',
     Simple ''print(res4.summary_frame())'',
     Simple ''fig = res4.plot_forest()''],

    [],

    [Simple ''eff = np.array([61.00, 61.40, 62.21, 62.30, 62.34, 62.60, 62.70, 62.84, 65.90])'',
     Simple (''var_eff = np.array('' @ [CHR 0x0A] @
             ''    [0.2025, 1.2100, 0.0900, 0.2025, 0.3844, 0.5625, 0.0676, 0.0225, 1.8225]'' @ [CHR 0x0A] @
             '')''),
     Simple ''rownames = ["PTB", "NMi", "NIMC", "KRISS", "LGC", "NRC", "IRMM", "NIST", "LNE"]''],

    [Simple ''res2_DL = combine_effects(eff, var_eff, method_re="dl", use_t=True, row_names=rownames)'',
     Simple ''print("method RE:", res2_DL.method_re)'',
     Simple ''print(res2_DL.summary_frame())'',
     Simple ''fig = res2_DL.plot_forest()'',
     Simple ''fig.set_figheight(6)'',
     Simple ''fig.set_figwidth(6)''],

    [Simple ''res2_PM = combine_effects(eff, var_eff, method_re="pm", use_t=True, row_names=rownames)'',
     Simple ''print("method RE:", res2_PM.method_re)'',
     Simple ''print(res2_PM.summary_frame())'',
     Simple ''fig = res2_PM.plot_forest()'',
     Simple ''fig.set_figheight(6)'',
     Simple ''fig.set_figwidth(6)''],

    [],

    [Simple ''import io''],

    [Simple (''ss = """'' @ [CHR 0x5C] @ [CHR 0x0A] @
             ''    study,nei,nci,e1i,c1i,e2i,c2i,e3i,c3i,e4i,c4i'' @ [CHR 0x0A] @
             ''    1,19,22,16.0,20.0,11,12,4.0,8.0,4,3'' @ [CHR 0x0A] @
             ''    2,34,35,22.0,22.0,18,12,15.0,8.0,15,6'' @ [CHR 0x0A] @
             ''    3,72,68,44.0,40.0,21,15,10.0,3.0,3,0'' @ [CHR 0x0A] @
             ''    4,22,20,19.0,12.0,14,5,5.0,4.0,2,3'' @ [CHR 0x0A] @
             ''    5,70,32,62.0,27.0,42,13,26.0,6.0,15,5'' @ [CHR 0x0A] @
             ''    6,183,94,130.0,65.0,80,33,47.0,14.0,30,11'' @ [CHR 0x0A] @
             ''    7,26,50,24.0,30.0,13,18,5.0,10.0,3,9'' @ [CHR 0x0A] @
             ''    8,61,55,51.0,44.0,37,30,19.0,19.0,11,15'' @ [CHR 0x0A] @
             ''    9,36,25,30.0,17.0,23,12,13.0,4.0,10,4'' @ [CHR 0x0A] @
             ''    10,45,35,43.0,35.0,19,14,8.0,4.0,6,0'' @ [CHR 0x0A] @
             ''    11,246,208,169.0,139.0,106,76,67.0,42.0,51,35'' @ [CHR 0x0A] @
             ''    12,386,141,279.0,97.0,170,46,97.0,21.0,73,8'' @ [CHR 0x0A] @
             ''    13,59,32,56.0,30.0,34,17,21.0,9.0,20,7'' @ [CHR 0x0A] @
             ''    14,45,15,42.0,10.0,18,3,9.0,1.0,9,1'' @ [CHR 0x0A] @
             ''    15,14,18,14.0,18.0,13,14,12.0,13.0,9,12'' @ [CHR 0x0A] @
             ''    16,26,19,21.0,15.0,12,10,6.0,4.0,5,1'' @ [CHR 0x0A] @
             ''    17,74,75,,,42,40,,,23,30"""''),
     Simple ''df3 = pd.read_csv(io.StringIO(ss))'',
     Simple ''df_12y = df3[["e2i", "nei", "c2i", "nci"]]'',
     Simple ''count1, nobs1, count2, nobs2 = df_12y.values.T'',
     Simple ''dta = df_12y.values.T''],

    [Simple ''eff, var_eff = effectsize_2proportions(*dta, statistic="rd")''],

    [Simple ''eff, var_eff''],

    [Simple (''res5 = combine_effects('' @ [CHR 0x0A] @
             ''    eff, var_eff, method_re="iterated", use_t=False'' @ [CHR 0x0A] @
             '')  # , row_names=rownames)''),
     Simple ''res5_df = res5.summary_frame()'',
     Simple ''print("method RE:", res5.method_re)'',
     Simple ''print("RE variance tau2:", res5.tau2)'',
     Simple ''print(res5.summary_frame())'',
     Simple ''fig = res5.plot_forest()'',
     Simple ''fig.set_figheight(8)'',
     Simple ''fig.set_figwidth(6)''],

    [Simple ''dta_c = dta.copy()'',
     Simple ''dta_c.T[0, 0] = 18'',
     Simple ''dta_c.T[1, 0] = 22'',
     Simple ''dta_c.T''],

    [Simple ''eff, var_eff = effectsize_2proportions(*dta_c, statistic="rd")'',
     Simple (''res5 = combine_effects('' @ [CHR 0x0A] @
             ''    eff, var_eff, method_re="iterated", use_t=False'' @ [CHR 0x0A] @
             '')  # , row_names=rownames)''),
     Simple ''res5_df = res5.summary_frame()'',
     Simple ''print("method RE:", res5.method_re)'',
     Simple ''print(res5.summary_frame())'',
     Simple ''fig = res5.plot_forest()'',
     Simple ''fig.set_figheight(8)'',
     Simple ''fig.set_figwidth(6)''],

    [Simple ''res5 = combine_effects(eff, var_eff, method_re="chi2", use_t=False)'',
     Simple ''res5_df = res5.summary_frame()'',
     Simple ''print("method RE:", res5.method_re)'',
     Simple ''print(res5.summary_frame())'',
     Simple ''fig = res5.plot_forest()'',
     Simple ''fig.set_figheight(8)'',
     Simple ''fig.set_figwidth(6)''],

    [Simple ''from statsmodels.genmod.generalized_linear_model import GLM''],

    [Simple ''eff, var_eff = effectsize_2proportions(*dta_c, statistic="or")'',
     Simple ''res = combine_effects(eff, var_eff, method_re="chi2", use_t=False)'',
     Simple ''res_frame = res.summary_frame()'',
     Simple ''print(res_frame.iloc[-4:])''],

    [Simple ''weights = 1 / var_eff'',
     Simple ''mod_glm = GLM(eff, np.ones(len(eff)), var_weights=weights)'',
     Simple ''res_glm = mod_glm.fit(scale=1.0)'',
     Simple ''print(res_glm.summary().tables[1])''],

    [Simple (''res_glm.scale, res_glm.conf_int() - res_frame.loc['' @ [CHR 0x0A] @
             ''    "fixed effect", ["ci_low", "ci_upp"]'' @ [CHR 0x0A] @
             ''].values'')],

    [Simple ''res_glm = mod_glm.fit(scale="x2")'',
     Simple ''print(res_glm.summary().tables[1])''],

    [Simple (''res_glm.scale, res_glm.conf_int() - res_frame.loc['' @ [CHR 0x0A] @
             ''    "fixed effect", ["ci_low", "ci_upp"]'' @ [CHR 0x0A] @
             ''].values'')],

    [Simple ''t, nt, c, nc = dta_c'',
     Simple ''counts = np.column_stack([t, nt - t, c, nc - c])'',
     Simple ''ctables = counts.T.reshape(2, 2, -1)'',
     Simple ''ctables[:, :, 0]''],

    [Simple ''counts[0]''],

    [Simple ''dta_c.T[0]''],

    [Simple ''import statsmodels.stats.api as smstats''],

    [Simple ''st = smstats.StratifiedTable(ctables.astype(np.float64))''],

    [Simple ''st.logodds_pooled, st.logodds_pooled - 0.4428186730553189  # R meta''],

    [Simple ''st.logodds_pooled_se, st.logodds_pooled_se - 0.08928560091027186  # R meta''],

    [Simple ''st.logodds_pooled_confint()''],

    [Simple ''print(st.test_equal_odds())''],

    [Simple ''print(st.test_null_odds())''],

    [Simple ''ctables.sum(1)''],

    [Simple ''nt, nc''],

    [Simple ''print(st.summary())'']]\<close>

definition notebooks :: "notebook list" where
  "notebooks = [quasibinomial_nb, quantile_regression_nb, metaanalysis1_nb]"

text \<open>
  An interpreter to run the notebooks against: the state counts the statements that ran
  to their end, every \<open>for\<close> header yields two iterations, and the one statement that
  raises is the first fit of the quasi-binomial notebook.
\<close>

definition fit_raises :: "nat interpreter" where
  \<open>fit_raises = \<lparr>
     simple = (\<lambda>s st. if s = ''result1 = model1.fit(scale="X2")''
                       then (st, Some (LibraryError ''fit'')) else (Suc st, None)),
     def_stmt = (\<lambda>h b st. (Suc st, None)),
     iterate = (\<lambda>h st. Inr [id, id]),
     catches = (\<lambda>c e. True)\<rparr>\<close>

text \<open>
  A trace agrees with a result if no statement raised when there is no exception, and
  if otherwise the raising statement is the last event, with the exception of the
  result, and everything before it ran to its end.
\<close>

fun unhandled :: "event list \<Rightarrow> error option \<Rightarrow> bool" where
  "unhandled tr None = list_all is_Ran tr"
| "unhandled tr (Some e) =
     (tr \<noteq> [] \<and> (\<exists>s. last tr = Raised s e) \<and> list_all is_Ran (butlast tr))"

section \<open>The variance function and its derivative\<close>

text \<open>
  C3. The method \<open>vf.deriv\<close> is the exact derivative of \<open>vf.__call__\<close>: over the reals,
  \<open>vf_call\<close> is differentiable at every \<open>mu\<close> with derivative \<open>vf_deriv mu\<close>; and as an
  identity of polynomials over the rationals, \<open>vf_call (q + h) - vf_call q\<close> is
  \<open>h * vf_deriv q\<close> plus a multiple of \<open>h\<^sup>2\<close>, for all rationals \<open>q\<close> and \<open>h\<close>.
\<close>

theorem vf_deriv_is_derivative:
  "((vf_call :: real \<Rightarrow> real) has_field_derivative vf_deriv mu) (at mu)
   \<and> (\<forall>q h :: rat. vf_call (q + h) - vf_call q =
         h * vf_deriv q + h ^ 2 * (1 - 6 * q + 6 * q ^ 2 + (4 * q - 2) * h + h ^ 2))"
proof
  show "((vf_call :: real \<Rightarrow> real) has_field_derivative vf_deriv mu) (at mu)"
    unfolding vf_call_def [abs_def] vf_deriv_def
    by (auto intro!: derivative_eq_intros simp: power2_eq_square power3_eq_cube algebra_simps)
  show "\<forall>q h :: rat. vf_call (q + h) - vf_call q =
          h * vf_deriv q + h ^ 2 * (1 - 6 * q + 6 * q ^ 2 + (4 * q - 2) * h + h ^ 2)"
    unfolding vf_call_def vf_deriv_def
    by (simp add: power2_eq_square power3_eq_cube algebra_simps)
qed

section \<open>The loaded leaf blotch table\<close>

subsection \<open>What the literal parses to\<close>

lemma read_csv_raw:
  "read_csv raw = Inr
     [[0.05, 0.00, 1.25, 2.50, 5.50, 1.00, 5.00, 5.00, 17.50],
      [0.00, 0.05, 1.25, 0.50, 1.00, 5.00, 0.10, 10.00, 25.00],
      [0.00, 0.05, 2.50, 0.01, 6.00, 5.00, 5.00, 5.00, 42.50],
      [0.10, 0.30, 16.60, 3.00, 1.10, 5.00, 5.00, 5.00, 50.00],
      [0.25, 0.75, 2.50, 2.50, 2.50, 5.00, 50.00, 25.00, 37.50],
      [0.05, 0.30, 2.50, 0.01, 8.00, 5.00, 10.00, 75.00, 95.00],
      [0.50, 3.00, 0.00, 25.00, 16.50, 10.00, 50.00, 50.00, 62.50],
      [1.30, 7.50, 20.00, 55.00, 29.50, 5.00, 25.00, 75.00, 95.00],
      [1.50, 1.00, 37.50, 5.00, 20.00, 50.00, 50.00, 75.00, 95.00],
      [1.50, 12.70, 26.25, 40.00, 43.50, 75.00, 75.00, 75.00, 95.00]]"
  by code_simp

subsection \<open>Stacking equal-length blocks\<close>

text \<open>Concatenating \<open>m\<close> blocks of length \<open>n\<close> puts element \<open>k mod n\<close> of block \<open>k div n\<close>
  at position \<open>k\<close>.\<close>

lemma concat_blocks:
  assumes len: "\<And>j. length (f j) = n"
  shows "concat (map f [0..<m]) = map (\<lambda>k. f (k div n) ! (k mod n)) [0..<m * n]"
proof (induction m)
  case 0
  show ?case by simp
next
  case (Suc m)
  have blk: "map (\<lambda>k. f (k div n) ! (k mod n)) [m * n..<m * n + n] = f m"
  proof (rule nth_equalityI)
    show "length (map (\<lambda>k. f (k div n) ! (k mod n)) [m * n..<m * n + n]) = length (f m)"
      by (simp add: len)
  next
    fix i
    assume "i < length (map (\<lambda>k. f (k div n) ! (k mod n)) [m * n..<m * n + n])"
    then have i: "i < n" by simp
    then have "(m * n + i) div n = m" "(m * n + i) mod n = i" by simp_all
    with i show "map (\<lambda>k. f (k div n) ! (k mod n)) [m * n..<m * n + n] ! i = f m ! i"
      by simp
  qed
  have split: "[0..<Suc m * n] = [0..<m * n] @ [m * n..<m * n + n]"
    using upt_add_eq_append [of 0 "m * n" n] by (simp add: add.commute)
  have "concat (map f [0..<Suc m]) = concat (map f [0..<m]) @ f m"
    by simp
  also have "\<dots> = map (\<lambda>k. f (k div n) ! (k mod n)) [0..<m * n] @ f m"
    by (simp only: Suc.IH)
  also have "\<dots> = map (\<lambda>k. f (k div n) ! (k mod n)) [0..<Suc m * n]"
    by (simp only: split map_append blk)
  finally show ?case .
qed

subsection \<open>The prepared frame\<close>

lemma floor_tenth: "\<lfloor>(of_nat i :: rat) / 10\<rfloor> = int (i div 10)"
  using floor_divide_of_nat_eq [of i 10, where ?'a = rat] by simp


lemma melt_rect:
  assumes "length t = n"
  shows "melt t =
     [(''variable'', IntCol (map (\<lambda>k. int (k div n)) [0..<ncols t * n])),
      (''value'', FloatCol (map (\<lambda>k. t ! (k mod n) ! (k div n)) [0..<ncols t * n]))]"
proof -
  have 1: "concat (map (\<lambda>j. map (\<lambda>r. int j) t) [0..<ncols t]) =
           map (\<lambda>k. map (\<lambda>r. int (k div n)) t ! (k mod n)) [0..<ncols t * n]"
    by (rule concat_blocks) (simp add: assms)
  have 2: "concat (map (\<lambda>j. map (\<lambda>r. r ! j) t) [0..<ncols t]) =
           map (\<lambda>k. map (\<lambda>r. r ! (k div n)) t ! (k mod n)) [0..<ncols t * n]"
    by (rule concat_blocks) (simp add: assms)
  have 3: "map (\<lambda>k. map (\<lambda>r. int (k div n)) t ! (k mod n)) [0..<ncols t * n] =
           map (\<lambda>k. int (k div n)) [0..<ncols t * n]"
    using assms by (cases "n = 0") auto
  have 4: "map (\<lambda>k. map (\<lambda>r. r ! (k div n)) t ! (k mod n)) [0..<ncols t * n] =
           map (\<lambda>k. t ! (k mod n) ! (k div n)) [0..<ncols t * n]"
    using assms by (cases "n = 0") auto
  show ?thesis
    unfolding melt_def 1 2 3 4 ..
qed

lemma prepare_rect:
  assumes "length t = n"
  shows "prepare t = Inr
     [(''blotch'', FloatCol (map (\<lambda>k. t ! (k mod n) ! (k div n) / 100) [0..<ncols t * n])),
      (''site'', IntCol (map (\<lambda>k. 1 + int (k div 10)) [0..<ncols t * n])),
      (''variety'', IntCol (map (\<lambda>k. 1 + int (k mod 10)) [0..<ncols t * n]))]"
  unfolding prepare_def melt_rect [OF assms]
  by (simp add: Let_def bind_err_def setitem_def nrows_def df_index_def rename_def
      drop_col_def getitem_def site_of_index_def variety_of_index_def floor_tenth
      zmod_int o_def)


lemma raw_table_shape:
  assumes "read_csv raw = Inr t"
  shows "length t = 10" and "ncols t = 9" and "\<forall>r\<in>set t. length r = 9"
    and "\<forall>r\<in>set t. \<forall>v\<in>set r. 0 \<le> v \<and> v \<le> 100"
  using assms unfolding read_csv_raw by (auto simp: ncols_def)





subsection \<open>Site and variety labels\<close>

lemma site_values: "set (map (\<lambda>k. 1 + int (k div 10)) [0..<90]) = {1..9}"
proof -
  have "(\<lambda>k. 1 + int (k div 10)) ` {0..<90} = {1..9}"
  proof (intro equalityI subsetI)
    fix x assume "x \<in> (\<lambda>k. 1 + int (k div 10)) ` {0..<90}"
    then obtain k where "k < 90" "x = 1 + int (k div 10)" by auto
    moreover from this have "k div 10 < 9" by simp
    ultimately show "x \<in> {1..9}" by simp
  next
    fix x :: int assume x: "x \<in> {1..9}"
    define n where "n = nat (x - 1)"
    define k where "k = 10 * n"
    have n: "n < 9" "int n = x - 1" using x unfolding n_def by auto
    then have "k < 90" "1 + int (k div 10) = x" by (simp_all add: k_def)
    then show "x \<in> (\<lambda>k. 1 + int (k div 10)) ` {0..<90}" by force
  qed
  then show ?thesis by simp
qed

lemma variety_values: "set (map (\<lambda>k. 1 + int (k mod 10)) [0..<90]) = {1..10}"
proof -
  have "(\<lambda>k. 1 + int (k mod 10)) ` {0..<90} = {1..10}"
  proof (intro equalityI subsetI)
    fix x assume "x \<in> (\<lambda>k. 1 + int (k mod 10)) ` {0..<90}"
    then obtain k where "x = 1 + int (k mod 10)" by auto
    moreover have "k mod 10 < 10" by simp
    ultimately show "x \<in> {1..10}" by simp
  next
    fix x :: int assume x: "x \<in> {1..10}"
    define k where "k = nat (x - 1)"
    have k: "k < 10" "int k = x - 1" using x unfolding k_def by auto
    then have "k < 90" "1 + int (k mod 10) = x" by simp_all
    then show "x \<in> (\<lambda>k. 1 + int (k mod 10)) ` {0..<90}" by force
  qed
  then show ?thesis by simp
qed

lemma pair_zip:
  "zip (map f xs) (map g xs) = map (\<lambda>x. (f x, g x)) xs"
  by (induction xs) simp_all

lemma pairs_distinct:
  "distinct (map (\<lambda>k. (1 + int (k div 10), 1 + int (k mod 10))) [0..<90])"
proof -
  have "inj (\<lambda>k::nat. (1 + int (k div 10), 1 + int (k mod 10)))"
  proof (rule injI)
    fix a b :: nat
    assume "(1 + int (a div 10), 1 + int (a mod 10)) = (1 + int (b div 10), 1 + int (b mod 10))"
    then have "a div 10 = b div 10" "a mod 10 = b mod 10" by simp_all
    then show "a = b" by (metis div_mult_mod_eq)
  qed
  then show ?thesis
    by (simp add: distinct_map inj_on_def)
qed

lemma pairs_values:
  "set (map (\<lambda>k. (1 + int (k div 10), 1 + int (k mod 10))) [0..<90]) = {1..9} \<times> {1..10}"
proof -
  have "(\<lambda>k. (1 + int (k div 10), 1 + int (k mod 10))) ` {0..<90} = {1..9} \<times> {1..10}"
  proof (intro equalityI subsetI)
    fix p assume "p \<in> (\<lambda>k. (1 + int (k div 10), 1 + int (k mod 10))) ` {0..<90}"
    then obtain k where k: "k < 90" "p = (1 + int (k div 10), 1 + int (k mod 10))" by auto
    from k(1) have "k div 10 < 9" "k mod 10 < 10" by simp_all
    with k(2) show "p \<in> {1..9} \<times> {1..10}" by simp
  next
    fix p :: "int \<times> int" assume p: "p \<in> {1..9} \<times> {1..10}"
    obtain a b where ab: "p = (a, b)" by (cases p)
    define m where "m = nat (a - 1)"
    define n where "n = nat (b - 1)"
    define k where "k = 10 * m + n"
    have mn: "m < 9" "int m = a - 1" "n < 10" "int n = b - 1"
      using p ab unfolding m_def n_def by auto
    then have "k < 90" "1 + int (k div 10) = a" "1 + int (k mod 10) = b"
      by (simp_all add: k_def)
    then show "p \<in> (\<lambda>k. (1 + int (k div 10), 1 + int (k mod 10))) ` {0..<90}"
      using ab by force
  qed
  then show ?thesis by simp
qed

text \<open>
  C5. In the 90-row frame, row \<open>i\<close> has \<open>site = 1 + floor (i / 10)\<close> and
  \<open>variety = 1 + (i mod 10)\<close>. The \<open>site\<close> label is one more than the column of the
  raw 10 by 9 layout the value came from, the \<open>variety\<close> label one more than its row.
  \<open>site\<close> takes exactly the values 1 to 9, \<open>variety\<close> exactly the values 1 to 10, and
  every pair of a site and a variety occurs exactly once.
\<close>

theorem load_df_site_variety:
  "\<exists>t df bs ss vs. read_csv raw = Inr t \<and> length t = 10 \<and> (\<forall>r\<in>set t. length r = 9)
      \<and> load_df = Inr df \<and> nrows df = 90
      \<and> getitem ''blotch'' df = Inr (FloatCol bs)
      \<and> getitem ''site'' df = Inr (IntCol ss) \<and> getitem ''variety'' df = Inr (IntCol vs)
      \<and> length ss = 90 \<and> length vs = 90
      \<and> (\<forall>i<90. ss ! i = 1 + \<lfloor>(of_nat i :: rat) / 10\<rfloor> \<and> vs ! i = 1 + int i mod 10
                \<and> bs ! i = t ! nat (vs ! i - 1) ! nat (ss ! i - 1) / 100)
      \<and> set ss = {1..9} \<and> set vs = {1..10}
      \<and> distinct (zip ss vs) \<and> set (zip ss vs) = {1..9} \<times> {1..10}"
proof -
  obtain t where t: "read_csv raw = Inr t"
    using read_csv_raw by blast
  note sh = raw_table_shape [OF t]
  define bs where "bs = map (\<lambda>k. t ! (k mod 10) ! (k div 10) / 100) [0..<90]"
  define ss where "ss = map (\<lambda>k. 1 + int (k div 10)) [0..<90]"
  define vs where "vs = map (\<lambda>k. 1 + int (k mod 10)) [0..<90]"
  define df where "df = [(''blotch'', FloatCol bs), (''site'', IntCol ss), (''variety'', IntCol vs)]"
  have load: "load_df = Inr df"
    unfolding load_df_def t df_def bs_def ss_def vs_def
    by (simp add: bind_err_def prepare_rect [OF sh(1)] sh(2))
  have cols: "nrows df = 90" "getitem ''blotch'' df = Inr (FloatCol bs)"
    "getitem ''site'' df = Inr (IntCol ss)" "getitem ''variety'' df = Inr (IntCol vs)"
    "length ss = 90" "length vs = 90"
    by (simp_all add: df_def nrows_def getitem_def bs_def ss_def vs_def)
  have rows: "\<forall>i<90. ss ! i = 1 + \<lfloor>(of_nat i :: rat) / 10\<rfloor> \<and> vs ! i = 1 + int i mod 10
                \<and> bs ! i = t ! nat (vs ! i - 1) ! nat (ss ! i - 1) / 100"
  proof (intro allI impI)
    fix i :: nat assume i: "i < 90"
    have "nat (1 + int (i mod 10) - 1) = i mod 10" "nat (1 + int (i div 10) - 1) = i div 10"
      by simp_all
    with i show "ss ! i = 1 + \<lfloor>(of_nat i :: rat) / 10\<rfloor> \<and> vs ! i = 1 + int i mod 10
                \<and> bs ! i = t ! nat (vs ! i - 1) ! nat (ss ! i - 1) / 100"
      by (simp add: bs_def ss_def vs_def floor_tenth zmod_int)
  qed
  have vals: "set ss = {1..9}" "set vs = {1..10}"
    unfolding ss_def vs_def by (rule site_values, rule variety_values)
  have pairs: "distinct (zip ss vs)" "set (zip ss vs) = {1..9} \<times> {1..10}"
    unfolding ss_def vs_def pair_zip by (rule pairs_distinct, rule pairs_values)
  show ?thesis
    using t sh(1) sh(3) load cols rows vals pairs by blast
qed

text \<open>
  The theorem at row 47: site 5, variety 8, and the value \<open>29.50\<close> of the eighth line
  and fifth column of the literal.
\<close>

theorem load_df_site_variety_witness:
  "\<exists>df bs ss vs. load_df = Inr df
      \<and> getitem ''blotch'' df = Inr (FloatCol bs)
      \<and> getitem ''site'' df = Inr (IntCol ss) \<and> getitem ''variety'' df = Inr (IntCol vs)
      \<and> ss ! 47 = 5 \<and> vs ! 47 = 8 \<and> bs ! 47 = 29.50 / 100"
proof -
  obtain t df bs ss vs where t: "read_csv raw = Inr t"
    and df: "load_df = Inr df" "getitem ''blotch'' df = Inr (FloatCol bs)"
      "getitem ''site'' df = Inr (IntCol ss)" "getitem ''variety'' df = Inr (IntCol vs)"
    and i: "\<forall>i<90. ss ! i = 1 + \<lfloor>(of_nat i :: rat) / 10\<rfloor> \<and> vs ! i = 1 + int i mod 10
                \<and> bs ! i = t ! nat (vs ! i - 1) ! nat (ss ! i - 1) / 100"
    using load_df_site_variety by blast
  have "(47::nat) < 90" by simp
  with i have "ss ! 47 = 1 + \<lfloor>(of_nat 47 :: rat) / 10\<rfloor>" "vs ! 47 = 1 + int 47 mod 10"
    "bs ! 47 = t ! nat (vs ! 47 - 1) ! nat (ss ! 47 - 1) / 100"
    by blast+
  moreover have "1 + \<lfloor>(of_nat 47 :: rat) / 10\<rfloor> = 5" "1 + int 47 mod 10 = 8"
    using floor_tenth [of 47] by simp_all
  moreover have "t ! nat (8 - 1) ! nat (5 - 1) = 29.50"
    using t unfolding read_csv_raw by auto
  ultimately show ?thesis using df by auto
qed

section \<open>The stratified contingency tables\<close>

lemma upt_4: "[0..<4] = [0, 1, 2, 3]"
  by (simp add: upt_rec)

lemma upt_2: "[0..<2] = [0, 1]"
  by (simp add: upt_rec)

lemma unpack4_rows:
  assumes "nrow m = 4" "length (cells m) = 4 * ncol m"
  shows "\<exists>a b c d. unpack4 m = Inr (a, b, c, d) \<and> cells m = a @ b @ c @ d
           \<and> length a = ncol m \<and> length b = ncol m \<and> length c = ncol m \<and> length d = ncol m"
proof -
  define K where "K = ncol m"
  define a where "a = take K (cells m)"
  define b where "b = take K (drop K (cells m))"
  define c where "c = take K (drop (2 * K) (cells m))"
  define d where "d = take K (drop (3 * K) (cells m))"
  have len: "length a = K" "length b = K" "length c = K" "length d = K"
    using assms(2) by (simp_all add: a_def b_def c_def d_def K_def)
  have "unpack4 m = Inr (a, b, c, d)"
    by (simp add: unpack4_def mat_rows_def assms(1) upt_4 a_def b_def c_def d_def K_def)
  moreover have "cells m = a @ b @ c @ d"
  proof -
    have d: "drop K (drop (2 * K) (cells m)) = d"
      using assms(2) by (simp add: d_def K_def)
    have "drop (2 * K) (cells m) = c @ d"
      unfolding c_def d [symmetric] by (rule append_take_drop_id [symmetric])
    moreover have "drop K (drop K (cells m)) = drop (2 * K) (cells m)"
      by (simp add: mult_2)
    ultimately have "drop K (drop K (cells m)) = c @ d"
      by simp
    then have "drop K (cells m) = b @ c @ d"
      unfolding b_def d by (metis append_take_drop_id)
    then show ?thesis
      unfolding a_def by (metis append_take_drop_id)
  qed
  ultimately show ?thesis using len unfolding K_def by blast
qed


lemma stacked_cell:
  assumes "i < K" "j < 4"
  shows "concat (map (\<lambda>k. map (\<lambda>w. w ! k) [t, a, c, b]) [0..<K]) ! (i * 4 + j) =
         [t, a, c, b] ! j ! i"
proof -
  have "concat (map (\<lambda>k. map (\<lambda>w. w ! k) [t, a, c, b]) [0..<K]) =
        map (\<lambda>p. map (\<lambda>w. w ! (p div 4)) [t, a, c, b] ! (p mod 4)) [0..<K * 4]"
    by (rule concat_blocks) simp
  moreover have "i * 4 + j < K * 4" "(i * 4 + j) div 4 = i" "(i * 4 + j) mod 4 = j"
    using assms by simp_all
  moreover have "j = 0 \<or> j = 1 \<or> j = 2 \<or> j = 3"
    using assms(2) by arith
  ultimately show ?thesis
    by auto
qed

lemma T_column_stack:
  assumes "length t = K" "length a = K" "length c = K" "length b = K"
  shows "\<exists>counts. column_stack [t, a, c, b] = Inr counts
            \<and> T counts = \<lparr>nrow = 4, ncol = K, cells = t @ a @ c @ b\<rparr>"
proof -
  define counts where "counts = \<lparr>nrow = K, ncol = 4,
      cells = concat (map (\<lambda>k. map (\<lambda>w. w ! k) [t, a, c, b]) [0..<K])\<rparr>"
  have cs: "column_stack [t, a, c, b] = Inr counts"
    using assms by (simp add: column_stack_def counts_def)
  have col: "map (\<lambda>i. cells counts ! (i * 4 + j)) [0..<K] = [t, a, c, b] ! j" if "j < 4" for j
  proof (rule nth_equalityI)
    show "length (map (\<lambda>i. cells counts ! (i * 4 + j)) [0..<K]) = length ([t, a, c, b] ! j)"
      using that assms by (auto simp: less_Suc_eq numeral_Bit0 numeral_eq_Suc)
  next
    fix i assume "i < length (map (\<lambda>i. cells counts ! (i * 4 + j)) [0..<K])"
    then have "i < K" by simp
    then show "map (\<lambda>i. cells counts ! (i * 4 + j)) [0..<K] ! i = [t, a, c, b] ! j ! i"
      using stacked_cell [OF _ that] by (simp add: counts_def)
  qed
  have "T counts = \<lparr>nrow = 4, ncol = K, cells = t @ a @ c @ b\<rparr>"
    using col [of 0] col [of 1] col [of 2] col [of 3]
    by (simp add: T_def upt_4 counts_def)
  with cs show ?thesis by blast
qed


lemma nth_map2_minus:
  "length xs = length ys \<Longrightarrow> k < length ys \<Longrightarrow> map2 (-) xs ys ! k = xs ! k - ys ! k"
  by simp

lemma map2_minus_add:
  fixes xs ys :: "'a::ab_group_add list"
  assumes "length xs = K" "length ys = K"
  shows "map (\<lambda>k. ys ! k + map2 (-) xs ys ! k) [0..<K] = xs"
  using assms by (intro nth_equalityI) simp_all

text \<open>
  C7. For every array \<open>dta_c\<close> of four rows \<open>t\<close>, \<open>nt\<close>, \<open>c\<close>, \<open>nc\<close> over \<open>K\<close> strata,
  the construction succeeds and yields a 2 by 2 by \<open>K\<close> array with, for every stratum
  \<open>k\<close>, \<open>ctables[0,0,k] = t\<^sub>k\<close>, \<open>ctables[0,1,k] = nt\<^sub>k - t\<^sub>k\<close>, \<open>ctables[1,0,k] = c\<^sub>k\<close>
  and \<open>ctables[1,1,k] = nc\<^sub>k - c\<^sub>k\<close>; \<open>ctables.sum(1)\<close> has the rows \<open>nt\<close> and \<open>nc\<close>,
  so the row sums of each table are the two sample sizes. The element type is any
  commutative group, which covers the integers and wrapping \<open>int64\<close> arithmetic alike.
\<close>

theorem ctables_entries:
  fixes dta_c :: "'a::ab_group_add matrix"
  assumes "nrow dta_c = 4" and "length (cells dta_c) = 4 * ncol dta_c"
  shows "\<exists>t nt c nc ctables.
           unpack4 dta_c = Inr (t, nt, c, nc) \<and> make_ctables dta_c = Inr ctables
         \<and> dim0 ctables = 2 \<and> dim1 ctables = 2 \<and> dim2 ctables = ncol dta_c
         \<and> (\<forall>k < ncol dta_c.
               getitem3 ctables 0 0 k = Inr (t ! k)
             \<and> getitem3 ctables 0 1 k = Inr (nt ! k - t ! k)
             \<and> getitem3 ctables 1 0 k = Inr (c ! k)
             \<and> getitem3 ctables 1 1 k = Inr (nc ! k - c ! k))
         \<and> sum_axis1 ctables = \<lparr>nrow = 2, ncol = ncol dta_c, cells = nt @ nc\<rparr>"
proof -
  define K where "K = ncol dta_c"
  obtain t nt c nc where un: "unpack4 dta_c = Inr (t, nt, c, nc)"
    and len: "length t = K" "length nt = K" "length c = K" "length nc = K"
    using unpack4_rows [OF assms] unfolding K_def by blast
  define a where "a = map2 (-) nt t"
  define b where "b = map2 (-) nc c"
  have lab: "length a = K" "length b = K"
    using len by (simp_all add: a_def b_def)
  obtain counts where counts: "column_stack [t, a, c, b] = Inr counts"
    and tr: "T counts = \<lparr>nrow = 4, ncol = K, cells = t @ a @ c @ b\<rparr>"
    using T_column_stack [OF len(1) lab(1) len(3) lab(2)] by blast
  define ct where "ct = \<lparr>dim0 = 2, dim1 = 2, dim2 = K, cells3 = t @ a @ c @ b\<rparr>"
  have mk: "make_ctables dta_c = Inr ct"
    using len counts
    by (simp add: make_ctables_def un bind_err_def vsub_def a_def [symmetric] b_def [symmetric]
        tr reshape_2_2_def ct_def)
  have ent: "getitem3 ct 0 0 k = Inr (t ! k) \<and> getitem3 ct 0 1 k = Inr (nt ! k - t ! k)
             \<and> getitem3 ct 1 0 k = Inr (c ! k) \<and> getitem3 ct 1 1 k = Inr (nc ! k - c ! k)"
    if "k < K" for k
    using that len lab
    by (simp add: getitem3_def ct_def nth_append a_def b_def)
  have s0: "map (\<lambda>k. t ! k + a ! k) [0..<K] = nt"
    unfolding a_def by (rule map2_minus_add [OF len(2) len(1)])
  have s1: "map (\<lambda>k. c ! k + b ! k) [0..<K] = nc"
    unfolding b_def by (rule map2_minus_add [OF len(4) len(3)])
  have c0: "map (\<lambda>k. (t @ a @ c @ b) ! k + (t @ a @ c @ b) ! (K + k)) [0..<K] =
            map (\<lambda>k. t ! k + a ! k) [0..<K]"
    using len lab by (simp add: nth_append)
  have c1: "map (\<lambda>k. (t @ a @ c @ b) ! (2 * K + k) + (t @ a @ c @ b) ! (3 * K + k)) [0..<K] =
            map (\<lambda>k. c ! k + b ! k) [0..<K]"
    using len lab by (simp add: nth_append)
  have "sum_axis1 ct = \<lparr>nrow = 2, ncol = K, cells =
          map (\<lambda>k. (t @ a @ c @ b) ! k + (t @ a @ c @ b) ! (K + k)) [0..<K] @
          map (\<lambda>k. (t @ a @ c @ b) ! (2 * K + k) + (t @ a @ c @ b) ! (3 * K + k)) [0..<K]\<rparr>"
    by (simp add: sum_axis1_def ct_def upt_2)
  then have sm: "sum_axis1 ct = \<lparr>nrow = 2, ncol = K, cells = nt @ nc\<rparr>"
    by (simp only: c0 c1 s0 s1)
  have "dim0 ct = 2" "dim1 ct = 2" "dim2 ct = K"
    by (simp_all add: ct_def)
  with un mk ent sm show ?thesis
    unfolding K_def by blast
qed

text \<open>The array \<open>dta_c\<close> of the notebook, computed from the literal \<open>ss\<close>.\<close>

lemma load_dta_c_value:
  "load_dta_c = Inr \<lparr>nrow = 4, ncol = 17, cells =
     [18, 22, 21, 14, 42, 80, 13, 37, 23, 19, 106, 170, 34, 18, 13, 12, 42,
      19, 34, 72, 22, 70, 183, 26, 61, 36, 45, 246, 386, 59, 45, 14, 26, 74,
      12, 12, 15, 5, 13, 33, 18, 30, 12, 14, 76, 46, 17, 3, 14, 10, 40,
      22, 35, 68, 20, 32, 94, 50, 55, 25, 35, 208, 141, 32, 15, 18, 19, 75]\<rparr>"
  by code_simp

text \<open>
  The theorem at the notebook's own \<open>dta_c\<close>: the first table \<open>ctables[:, :, 0]\<close> is
  \<open>[[18, 1], [12, 10]]\<close> and the row sums are the columns \<open>nei\<close> and \<open>nci\<close> of the literal.
\<close>

theorem ctables_entries_witness:
  "\<exists>dta_c ctables. load_dta_c = Inr dta_c \<and> nrow dta_c = 4
      \<and> length (cells dta_c) = 4 * ncol dta_c
      \<and> make_ctables dta_c = Inr ctables
      \<and> getitem3 ctables 0 0 0 = Inr 18 \<and> getitem3 ctables 0 1 0 = Inr 1
      \<and> getitem3 ctables 1 0 0 = Inr 12 \<and> getitem3 ctables 1 1 0 = Inr 10
      \<and> sum_axis1 ctables = \<lparr>nrow = 2, ncol = 17, cells =
           [19, 34, 72, 22, 70, 183, 26, 61, 36, 45, 246, 386, 59, 45, 14, 26, 74,
            22, 35, 68, 20, 32, 94, 50, 55, 25, 35, 208, 141, 32, 15, 18, 19, 75]\<rparr>"
proof -
  define dta_c :: "int matrix" where "dta_c = \<lparr>nrow = 4, ncol = 17, cells =
     [18, 22, 21, 14, 42, 80, 13, 37, 23, 19, 106, 170, 34, 18, 13, 12, 42,
      19, 34, 72, 22, 70, 183, 26, 61, 36, 45, 246, 386, 59, 45, 14, 26, 74,
      12, 12, 15, 5, 13, 33, 18, 30, 12, 14, 76, 46, 17, 3, 14, 10, 40,
      22, 35, 68, 20, 32, 94, 50, 55, 25, 35, 208, 141, 32, 15, 18, 19, 75]\<rparr>"
  have h: "nrow dta_c = 4" "length (cells dta_c) = 4 * ncol dta_c"
    by (simp_all add: dta_c_def)
  have u: "unpack4 dta_c = Inr
     ([18, 22, 21, 14, 42, 80, 13, 37, 23, 19, 106, 170, 34, 18, 13, 12, 42],
      [19, 34, 72, 22, 70, 183, 26, 61, 36, 45, 246, 386, 59, 45, 14, 26, 74],
      [12, 12, 15, 5, 13, 33, 18, 30, 12, 14, 76, 46, 17, 3, 14, 10, 40],
      [22, 35, 68, 20, 32, 94, 50, 55, 25, 35, 208, 141, 32, 15, 18, 19, 75])"
    by (simp add: unpack4_def mat_rows_def dta_c_def upt_4)
  obtain t nt c nc ctables where r: "unpack4 dta_c = Inr (t, nt, c, nc)"
      "make_ctables dta_c = Inr ctables"
      "\<forall>k < ncol dta_c.
               getitem3 ctables 0 0 k = Inr (t ! k)
             \<and> getitem3 ctables 0 1 k = Inr (nt ! k - t ! k)
             \<and> getitem3 ctables 1 0 k = Inr (c ! k)
             \<and> getitem3 ctables 1 1 k = Inr (nc ! k - c ! k)"
      "sum_axis1 ctables = \<lparr>nrow = 2, ncol = ncol dta_c, cells = nt @ nc\<rparr>"
    using ctables_entries [OF h] by blast
  have "0 < ncol dta_c" by (simp add: dta_c_def)
  with r(3) have "getitem3 ctables 0 0 0 = Inr (t ! 0)"
    "getitem3 ctables 0 1 0 = Inr (nt ! 0 - t ! 0)"
    "getitem3 ctables 1 0 0 = Inr (c ! 0)"
    "getitem3 ctables 1 1 0 = Inr (nc ! 0 - c ! 0)"
    by blast+
  with r(1,2,4) u h show ?thesis
    unfolding load_dta_c_value by (auto simp: dta_c_def)
qed

section \<open>What the defined functions compute themselves\<close>

subsection \<open>Elementwise arithmetic on arrays\<close>

lemma sequence_option_map:
  "(\<And>x. x \<in> set xs \<Longrightarrow> f x = Some (g x)) \<Longrightarrow> sequence_option (map f xs) = Some (map g xs)"
  by (induction xs) simp_all

lemma num_op_simps:
  "num_op Add a b = Some (a + b)"
  "num_op Sub a b = Some (a - b)"
  "num_op Mult a b = Some (a * b)"
  "num_op Pow a 2 = Some (a ^ 2)"
  "num_op Pow a 3 = Some (a ^ 3)"
  by (simp_all add: num_op_def)

lemma map2_same: "map2 f (map g xs) (map h xs) = map (\<lambda>x. f (g x) (h x)) xs"
  by (induction xs) simp_all

lemma broadcast_right: "broadcast xs [b] = Inr (map (\<lambda>x. (x, b)) xs)"
proof (cases "length xs = 1")
  case True
  then obtain x where "xs = [x]"
    by (cases xs) auto
  then show ?thesis by (simp add: broadcast_def)
next
  case False
  then show ?thesis by (simp add: broadcast_def)
qed

lemma broadcast_left: "broadcast [a] ys = Inr (map (\<lambda>y. (a, y)) ys)"
proof (cases "length ys = 1")
  case True
  then obtain y where "ys = [y]"
    by (cases ys) auto
  then show ?thesis by (simp add: broadcast_def)
next
  case False
  then have "1 \<noteq> length ys" by simp
  then show ?thesis by (simp add: broadcast_def)
qed

lemma elementwise_pairs:
  assumes "broadcast xs ys = Inr (map p zs)" and "\<And>z. (\<lambda>(x, y). num_op op x y) (p z) = Some (r z)"
  shows "elementwise op xs ys = Some (Inr (VArr (map r zs), 1))"
proof -
  have "sequence_option (map (\<lambda>z. (\<lambda>(x, y). num_op op x y) (p z)) zs) = Some (map r zs)"
    by (rule sequence_option_map) (rule assms(2))
  then show ?thesis
    by (simp add: elementwise_def assms(1) o_def)
qed

lemma arr_num: "bin_op lib op (VArr xs) (VNum b) = Inr (VArr (map (\<lambda>x. r x) xs), 1)"
  if "\<And>x. num_op op x b = Some (r x)"
  using elementwise_pairs [OF broadcast_right, of op b r] that
  by (simp add: bin_op_def)

lemma num_arr: "bin_op lib op (VNum a) (VArr ys) = Inr (VArr (map (\<lambda>y. r y) ys), 1)"
  if "\<And>y. num_op op a y = Some (r y)"
  using elementwise_pairs [OF broadcast_left, of op a r] that
  by (simp add: bin_op_def)

lemma arr_arr:
  "bin_op lib op (VArr (map g xs)) (VArr (map h xs)) = Inr (VArr (map (\<lambda>x. r (g x) (h x)) xs), 1)"
  if "\<And>x y. num_op op x y = Some (r x y)"
proof -
  have "broadcast (map g xs) (map h xs) = Inr (map (\<lambda>x. (g x, h x)) xs)"
    by (simp add: broadcast_def zip_map_map zip_same_conv_map)
  from elementwise_pairs [OF this, of op "\<lambda>x. r (g x) (h x)"] that
  show ?thesis by (simp add: bin_op_def)
qed

lemma num_num: "bin_op lib op (VNum a) (VNum b) = Inr (VNum r, 1)"
  if "num_op op a b = Some r"
  by (simp add: bin_op_def that)

lemma list_list: "bin_op lib Add (VList xs) (VList ys) = Inr (VList (xs @ ys), 0)"
  by (simp add: bin_op_def)


subsection \<open>The four bodies\<close>

lemma vf_call_num:
  "call_function lib globals vf_call_src [self, VNum mu] = Inr (VNum (vf_call mu), 4)"
proof -
  have 1: "bin_op lib Pow (VNum mu) (VNum 2) = Inr (VNum (mu ^ 2), 1)"
    by (rule num_num) (rule num_op_simps)
  have 2: "bin_op lib Sub (VNum 1) (VNum mu) = Inr (VNum (1 - mu), 1)"
    by (rule num_num) (rule num_op_simps)
  have 3: "bin_op lib Pow (VNum (1 - mu)) (VNum 2) = Inr (VNum ((1 - mu) ^ 2), 1)"
    by (rule num_num) (rule num_op_simps)
  have 4: "bin_op lib Mult (VNum (mu ^ 2)) (VNum ((1 - mu) ^ 2)) =
           Inr (VNum (mu ^ 2 * (1 - mu) ^ 2), 1)"
    by (rule num_num) (rule num_op_simps)
  show ?thesis
    by (simp add: call_function_def vf_call_src_def bind_err_def 1 2 3 4 vf_call_def)
qed

lemma vf_deriv_num:
  "call_function lib globals vf_deriv_src [self, VNum mu] = Inr (VNum (vf_deriv mu), 7)"
proof -
  have 1: "bin_op lib Mult (VNum 2) (VNum mu) = Inr (VNum (2 * mu), 1)"
    by (rule num_num) (rule num_op_simps)
  have 2: "bin_op lib Pow (VNum mu) (VNum 2) = Inr (VNum (mu ^ 2), 1)"
    by (rule num_num) (rule num_op_simps)
  have 3: "bin_op lib Mult (VNum 6) (VNum (mu ^ 2)) = Inr (VNum (6 * mu ^ 2), 1)"
    by (rule num_num) (rule num_op_simps)
  have 4: "bin_op lib Sub (VNum (2 * mu)) (VNum (6 * mu ^ 2)) = Inr (VNum (2 * mu - 6 * mu ^ 2), 1)"
    by (rule num_num) (rule num_op_simps)
  have 5: "bin_op lib Pow (VNum mu) (VNum 3) = Inr (VNum (mu ^ 3), 1)"
    by (rule num_num) (rule num_op_simps)
  have 6: "bin_op lib Mult (VNum 4) (VNum (mu ^ 3)) = Inr (VNum (4 * mu ^ 3), 1)"
    by (rule num_num) (rule num_op_simps)
  have 7: "bin_op lib Add (VNum (2 * mu - 6 * mu ^ 2)) (VNum (4 * mu ^ 3)) =
           Inr (VNum (2 * mu - 6 * mu ^ 2 + 4 * mu ^ 3), 1)"
    by (rule num_num) (rule num_op_simps)
  show ?thesis
    by (simp add: call_function_def vf_deriv_src_def bind_err_def 1 2 3 4 5 6 7 vf_deriv_def)
qed

lemma vf_call_arr:
  "call_function lib globals vf_call_src [self, VArr mus] = Inr (VArr (map vf_call mus), 4)"
proof -
  have 1: "bin_op lib Pow (VArr mus) (VNum 2) = Inr (VArr (map (\<lambda>x. x ^ 2) mus), 1)"
    by (rule arr_num) (rule num_op_simps)
  have 2: "bin_op lib Sub (VNum 1) (VArr mus) = Inr (VArr (map (\<lambda>x. 1 - x) mus), 1)"
    by (rule num_arr) (rule num_op_simps)
  have 3: "bin_op lib Pow (VArr (map (\<lambda>x. 1 - x) mus)) (VNum 2) =
           Inr (VArr (map (\<lambda>x. x ^ 2) (map (\<lambda>x. 1 - x) mus)), 1)"
    by (rule arr_num) (rule num_op_simps)
  have 4: "bin_op lib Mult (VArr (map (\<lambda>x. x ^ 2) mus)) (VArr (map (\<lambda>x. (1 - x) ^ 2) mus)) =
           Inr (VArr (map (\<lambda>x. x ^ 2 * (1 - x) ^ 2) mus), 1)"
    by (rule arr_arr) (rule num_op_simps)
  show ?thesis
    by (simp add: call_function_def vf_call_src_def bind_err_def 1 2 3 4 o_def vf_call_def [abs_def])
qed

lemma vf_deriv_arr:
  "call_function lib globals vf_deriv_src [self, VArr mus] = Inr (VArr (map vf_deriv mus), 7)"
proof -
  have 1: "bin_op lib Mult (VNum 2) (VArr mus) = Inr (VArr (map (\<lambda>x. 2 * x) mus), 1)"
    by (rule num_arr) (rule num_op_simps)
  have 2: "bin_op lib Pow (VArr mus) (VNum 2) = Inr (VArr (map (\<lambda>x. x ^ 2) mus), 1)"
    by (rule arr_num) (rule num_op_simps)
  have 3: "bin_op lib Mult (VNum 6) (VArr (map (\<lambda>x. x ^ 2) mus)) =
           Inr (VArr (map (\<lambda>x. 6 * x) (map (\<lambda>x. x ^ 2) mus)), 1)"
    by (rule num_arr) (rule num_op_simps)
  have 4: "bin_op lib Sub (VArr (map (\<lambda>x. 2 * x) mus)) (VArr (map (\<lambda>x. 6 * x ^ 2) mus)) =
           Inr (VArr (map (\<lambda>x. 2 * x - 6 * x ^ 2) mus), 1)"
    by (rule arr_arr) (rule num_op_simps)
  have 5: "bin_op lib Pow (VArr mus) (VNum 3) = Inr (VArr (map (\<lambda>x. x ^ 3) mus), 1)"
    by (rule arr_num) (rule num_op_simps)
  have 6: "bin_op lib Mult (VNum 4) (VArr (map (\<lambda>x. x ^ 3) mus)) =
           Inr (VArr (map (\<lambda>x. 4 * x) (map (\<lambda>x. x ^ 3) mus)), 1)"
    by (rule num_arr) (rule num_op_simps)
  have 7: "bin_op lib Add (VArr (map (\<lambda>x. 2 * x - 6 * x ^ 2) mus)) (VArr (map (\<lambda>x. 4 * x ^ 3) mus)) =
           Inr (VArr (map (\<lambda>x. 2 * x - 6 * x ^ 2 + 4 * x ^ 3) mus), 1)"
    by (rule arr_arr) (rule num_op_simps)
  show ?thesis
    by (simp add: call_function_def vf_deriv_src_def bind_err_def 1 2 3 4 5 6 7 o_def
        vf_deriv_def [abs_def])
qed

lemma get_y_arr:
  assumes "globals ''x'' = Some (VArr xs)"
  shows "call_function lib globals get_y_src [VNum a, VNum b] =
           Inr (VArr (map (\<lambda>x. a + b * x) xs), 2)"
proof -
  have 1: "bin_op lib Mult (VNum b) (VArr xs) = Inr (VArr (map (\<lambda>x. b * x) xs), 1)"
    by (rule num_arr) (rule num_op_simps)
  have 2: "bin_op lib Add (VNum a) (VArr (map (\<lambda>x. b * x) xs)) =
           Inr (VArr (map (\<lambda>x. a + x) (map (\<lambda>x. b * x) xs)), 1)"
    by (rule num_arr) (rule num_op_simps)
  show ?thesis
    by (simp add: call_function_def get_y_src_def bind_err_def assms map_add_def 1 2 o_def)
qed

lemma fit_model_count:
  assumes tolist: "\<And>obj as ks r. call_method lib obj ''tolist'' as ks = Inr r \<Longrightarrow> \<exists>xs. r = VList xs"
    and "call_function lib globals fit_model_src args = Inr (v, n)"
  shows "n = 0"
  using assms(2)
  by (auto simp: call_function_def fit_model_src_def bind_err_def list_list
      split: sum.splits prod.splits option.splits if_splits dest!: tolist)

text \<open>
  The condition on \<open>tolist\<close> is needed: were it to answer an array, \<open>+\<close> would be numpy's
  elementwise addition of the list and the array, one arithmetic operation.
\<close>

lemma fit_model_array_tolist:
  "call_function array_lib [''mod'' \<mapsto> VObj 0] fit_model_src [VNum 0.5] =
     Inr (VArr [1.5, 82.5, 1.56], 1)"
  by (simp add: call_function_def fit_model_src_def bind_err_def array_lib_def demo_lib_def
      bin_op_def elementwise_def broadcast_def num_op_def)


text \<open>
  C1, as stated, fails: the method \<open>vf.__call__\<close> is one of the functions the notebooks
  define, and called with \<open>mu = 2\<close>, against a library in which every operation
  raises, it returns 4 after four arithmetic operations of its own (two powers, a
  subtraction and a product).
\<close>

theorem own_arithmetic_counterexample:
  "vf_call_src \<in> set notebook_functions
   \<and> call_function failing_lib Map.empty vf_call_src [VObj 0, VNum 2] = Inr (VNum 4, 4)"
  using vf_call_num [of failing_lib Map.empty "VObj 0" 2]
  by (simp add: notebook_functions_def vf_call_def)

text \<open>
  C1, amended. Of the four functions the notebooks define, \<open>fit_model\<close> performs no
  arithmetic of its own whenever it returns, given that the library's \<open>tolist\<close> answers
  a list, as that of pandas does (it calls library methods, indexes their results and
  concatenates two lists). The methods \<open>vf.__call__\<close> and \<open>vf.deriv\<close> and the lambda
  \<open>get_y\<close> do compute: whatever the library, on a number or elementwise on an array,
  each evaluates one closed-form polynomial of its arguments, \<open>mu\<^sup>2 (1 - mu)\<^sup>2\<close> with 4
  arithmetic operations, \<open>2 mu - 6 mu\<^sup>2 + 4 mu\<^sup>3\<close> with 7, and \<open>a + b x\<close> with 2, and
  always returns.
\<close>

theorem notebook_functions_closed_form:
  "(\<forall>lib globals args v n.
      (\<forall>obj as ks r. call_method lib obj ''tolist'' as ks = Inr r \<longrightarrow> (\<exists>xs. r = VList xs)) \<longrightarrow>
      call_function lib globals fit_model_src args = Inr (v, n) \<longrightarrow> n = 0)
   \<and> (\<forall>lib globals self mu.
      call_function lib globals vf_call_src [self, VNum mu] = Inr (VNum (vf_call mu), 4))
   \<and> (\<forall>lib globals self mus.
      call_function lib globals vf_call_src [self, VArr mus] = Inr (VArr (map vf_call mus), 4))
   \<and> (\<forall>lib globals self mu.
      call_function lib globals vf_deriv_src [self, VNum mu] = Inr (VNum (vf_deriv mu), 7))
   \<and> (\<forall>lib globals self mus.
      call_function lib globals vf_deriv_src [self, VArr mus] = Inr (VArr (map vf_deriv mus), 7))
   \<and> (\<forall>lib globals a b xs. globals ''x'' = Some (VArr xs) \<longrightarrow>
      call_function lib globals get_y_src [VNum a, VNum b] =
        Inr (VArr (map (\<lambda>x. a + b * x) xs), 2))"
proof (intro conjI allI impI)
  fix lib globals args v n
  assume tolist: "\<forall>obj as ks r. call_method lib obj ''tolist'' as ks = Inr r \<longrightarrow> (\<exists>xs. r = VList xs)"
    and ret: "call_function lib globals fit_model_src args = Inr (v, n)"
  from tolist have "\<And>obj as ks r. call_method lib obj ''tolist'' as ks = Inr r \<Longrightarrow> \<exists>xs. r = VList xs"
    by simp
  from this ret show "n = 0" by (rule fit_model_count)
qed (rule vf_call_num, rule vf_call_arr, rule vf_deriv_num, rule vf_deriv_arr, erule get_y_arr)

text \<open>
  The theorem at concrete inputs: \<open>fit_model(0.5)\<close> against a library whose \<open>tolist\<close>
  answers a list returns the five-element list with no arithmetic of its own, and
  \<open>get_y(81.5, 0.56)\<close> with \<open>x = [0, 50, 100]\<close> returns \<open>[81.5, 109.5, 137.5]\<close>.
\<close>

theorem notebook_functions_closed_form_witness:
  "call_method demo_lib (VObj 5) ''tolist'' [] [] = Inr (VList [VNum 0.5, VNum 0.75])
   \<and> call_function demo_lib [''mod'' \<mapsto> VObj 0] fit_model_src [VNum 0.5] =
     Inr (VList [VNum 0.5, VNum 81.5, VNum 0.56, VNum 0.5, VNum 0.75], 0)
   \<and> call_function demo_lib [''x'' \<mapsto> VArr [0, 50, 100]] get_y_src [VNum 81.5, VNum 0.56] =
     Inr (VArr [81.5, 109.5, 137.5], 2)"
proof -
  have tolist: "\<forall>obj as ks r. call_method demo_lib obj ''tolist'' as ks = Inr r
                  \<longrightarrow> (\<exists>xs. r = VList xs)"
    by (simp add: demo_lib_def)
  have "\<exists>n. call_function demo_lib [''mod'' \<mapsto> VObj 0] fit_model_src [VNum 0.5] =
     Inr (VList [VNum 0.5, VNum 81.5, VNum 0.56, VNum 0.5, VNum 0.75], n)"
    by (simp add: call_function_def fit_model_src_def bind_err_def demo_lib_def bin_op_def)
  then obtain n where n: "call_function demo_lib [''mod'' \<mapsto> VObj 0] fit_model_src [VNum 0.5] =
     Inr (VList [VNum 0.5, VNum 81.5, VNum 0.56, VNum 0.5, VNum 0.75], n)" ..
  have "n = 0"
    by (rule notebook_functions_closed_form [THEN conjunct1, THEN spec [of _ demo_lib],
          rule_format, OF tolist [rule_format] n])
  moreover have x: "[''x'' \<mapsto> VArr [0, 50, 100]] ''x'' = Some (VArr [0, 50, 100])"
    by simp
  have "call_function demo_lib [''x'' \<mapsto> VArr [0, 50, 100]] get_y_src [VNum 81.5, VNum 0.56] =
          Inr (VArr (map (\<lambda>x. 81.5 + 0.56 * x) [0, 50, 100]), 2)"
    by (rule notebook_functions_closed_form [THEN conjunct2, THEN conjunct2, THEN conjunct2,
          THEN conjunct2, THEN conjunct2, THEN spec [of _ demo_lib],
          THEN spec [of _ "[''x'' \<mapsto> VArr [0, 50, 100]]"], THEN spec [of _ "81.5"],
          THEN spec [of _ "0.56"], THEN spec [of _ "[0, 50, 100]"], THEN mp, OF x])
  ultimately show ?thesis
    using n by (simp add: demo_lib_def)
qed

section \<open>Exceptions in a notebook run\<close>

subsection \<open>Statements without a handler never swallow an exception\<close>

lemma unhandled_append:
  "list_all is_Ran tr \<Longrightarrow> unhandled tr2 r \<Longrightarrow> unhandled (tr @ tr2) r"
  by (cases r) (auto simp: butlast_append)

lemma unhandled_Cons:
  "unhandled tr r \<Longrightarrow> unhandled (Ran h # tr) r"
  using unhandled_append [of "[Ran h]" tr r] by simp

lemma exec_unhandled:
  "handler_free s \<Longrightarrow> exec I s st = (tr, st', r) \<Longrightarrow> unhandled tr r"
  "list_all handler_free xs \<Longrightarrow> exec_list I xs st = (tr, st', r) \<Longrightarrow> unhandled tr r"
  "list_all handler_free b \<Longrightarrow> exec_for I b fs st = (tr, st', r) \<Longrightarrow> unhandled tr r"
proof (induction I s st and I xs st and I b fs st arbitrary: tr st' r and tr st' r and tr st' r
    rule: exec_exec_list_exec_for.induct)
  case (1 I s st)
  then show ?case by (auto split: prod.splits option.splits)
next
  case (2 I h b st)
  then show ?case by (auto split: prod.splits option.splits)
next
  case (3 I h b st)
  then show ?case
    by (auto split: prod.splits option.splits intro: unhandled_Cons simp del: unhandled.simps)
      (auto)
next
  case (4 I h b st)
  then show ?case
    by (auto split: prod.splits option.splits sum.splits intro: unhandled_Cons
        simp del: unhandled.simps) auto
next
  case (5 I b c h st)
  then show ?case by simp
next
  case (6 I st)
  then show ?case by simp
next
  case (7 I x xs st)
  show ?case
  proof (cases "exec I x st")
    case (fields tr1 st1 r1)
    from "7.prems"(1) have hx: "handler_free x" and hxs: "list_all handler_free xs" by simp_all
    from "7.IH"(1) [OF hx fields] have u1: "unhandled tr1 r1" .
    show ?thesis
    proof (cases r1)
      case None
      obtain tr2 st2 r2 where e2: "exec_list I xs st1 = (tr2, st2, r2)"
        by (cases "exec_list I xs st1")
      from "7.IH"(2) [OF fields [symmetric] refl None hxs e2]
      have "unhandled tr2 r2" .
      with u1 None have "unhandled (tr1 @ tr2) r2"
        by (auto intro: unhandled_append)
      with "7.prems"(2) fields None e2 show ?thesis by simp
    next
      case (Some e)
      with "7.prems"(2) fields u1 show ?thesis by simp
    qed
  qed
next
  case (8 I b st)
  then show ?case by simp
next
  case (9 I b f fs st)
  show ?case
  proof (cases "exec_list I b (f st)")
    case (fields tr1 st1 r1)
    from "9.IH"(1) [OF "9.prems"(1) fields] have u1: "unhandled tr1 r1" .
    show ?thesis
    proof (cases r1)
      case None
      obtain tr2 st2 r2 where e2: "exec_for I b fs st1 = (tr2, st2, r2)"
        by (cases "exec_for I b fs st1")
      from "9.IH"(2) [OF fields [symmetric] refl None "9.prems"(1) e2]
      have "unhandled tr2 r2" .
      with u1 None have "unhandled (tr1 @ tr2) r2"
        by (auto intro: unhandled_append)
      with "9.prems"(2) fields None e2 show ?thesis by simp
    next
      case (Some e)
      with "9.prems"(2) fields u1 show ?thesis by simp
    qed
  qed
qed


text \<open>With a handler it is otherwise: the exception is caught and the run goes on.\<close>

lemma try_swallows:
  assumes "simple I s st = (st', Some e)" "catches I c e"
  shows "exec I (Try [Simple s] c []) st = ([Raised s e], st', None)"
  using assms by simp

subsection \<open>Cells in sequence\<close>

lemma run_cells_shape:
  assumes "\<forall>c\<in>set cs. list_all handler_free c" and "run_cells I i cs st = (entered, st', r)"
  shows "map fst entered = [i..<i + length entered] \<and> length entered \<le> length cs
       \<and> (\<forall>c\<in>set (butlast entered). list_all is_Ran (snd c))
       \<and> (r = None \<longrightarrow> length entered = length cs \<and> (\<forall>c\<in>set entered. list_all is_Ran (snd c)))
       \<and> (\<forall>e. r = Some e \<longrightarrow> entered \<noteq> [] \<and> unhandled (snd (last entered)) (Some e))"
  using assms
proof (induction cs arbitrary: i st entered st' r)
  case Nil
  then show ?case by simp
next
  case (Cons c cs)
  obtain tr1 st1 r1 where e1: "exec_list I c st = (tr1, st1, r1)"
    by (cases "exec_list I c st")
  from Cons.prems(1) have hc: "list_all handler_free c" and hcs: "\<forall>c\<in>set cs. list_all handler_free c"
    by simp_all
  have u1: "unhandled tr1 r1"
    by (rule exec_unhandled(2) [OF hc e1])
  show ?case
  proof (cases r1)
    case (Some e)
    with Cons.prems(2) e1 have "entered = [(i, tr1)]" "r = Some e" by simp_all
    with u1 Some show ?thesis by simp
  next
    case None
    obtain rest st2 r2 where e2: "run_cells I (Suc i) cs st1 = (rest, st2, r2)"
      by (cases "run_cells I (Suc i) cs st1")
    from Cons.prems(2) e1 None e2 have c: "entered = (i, tr1) # rest" and r: "r = r2"
      by simp_all
    from u1 None have clean: "list_all is_Ran tr1" by simp
    note ih = Cons.IH [OF hcs e2]
    from ih have idx: "map fst rest = [Suc i..<Suc i + length rest]" by blast
    have len: "Suc i + length rest = i + length entered"
      unfolding c by simp
    have "map fst entered = i # map fst rest"
      unfolding c by simp
    also have "\<dots> = i # [Suc i..<Suc i + length rest]"
      by (simp only: idx)
    also have "\<dots> = [i..<Suc i + length rest]"
      by (rule upt_conv_Cons [symmetric]) simp
    finally have "map fst entered = [i..<i + length entered]"
      unfolding len .
    moreover have "length entered \<le> length (c # cs)"
      unfolding c using ih by simp
    moreover have "\<forall>c\<in>set (butlast entered). list_all is_Ran (snd c)"
      unfolding c using ih clean by (cases rest) auto
    moreover have "r = None \<longrightarrow> length entered = length (c # cs)
                    \<and> (\<forall>c\<in>set entered. list_all is_Ran (snd c))"
      unfolding c r using ih clean by auto
    moreover have "\<forall>e. r = Some e \<longrightarrow> entered \<noteq> [] \<and> unhandled (snd (last entered)) (Some e)"
      unfolding c r using ih by (auto simp del: unhandled.simps)
    ultimately show ?thesis by blast
  qed
qed

subsection \<open>The three notebooks\<close>

lemma notebooks_handler_free:
  "list_all (list_all (list_all handler_free)) notebooks"
  by code_simp


lemma run_notebook_unhandled:
  assumes "\<forall>c\<in>set nb. \<forall>s\<in>set c. handler_free s"
    and "run_notebook I nb st = (entered, st', r)"
  shows "map fst entered = [0..<length entered] \<and> length entered \<le> length nb
       \<and> (\<forall>c\<in>set (butlast entered). \<forall>ev\<in>set (snd c). is_Ran ev)
       \<and> (r = None \<longrightarrow> length entered = length nb
               \<and> (\<forall>c\<in>set entered. \<forall>ev\<in>set (snd c). is_Ran ev))
       \<and> (\<forall>e. r = Some e \<longrightarrow> entered \<noteq> [] \<and> snd (last entered) \<noteq> []
               \<and> (\<exists>s. last (snd (last entered)) = Raised s e)
               \<and> (\<forall>ev\<in>set (butlast (snd (last entered))). is_Ran ev))"
proof -
  from assms(1) have hf: "\<forall>c\<in>set nb. list_all handler_free c"
    by (simp add: list_all_iff)
  from assms(2) have rc: "run_cells I 0 nb st = (entered, st', r)"
    by (simp add: run_notebook_def)
  from run_cells_shape [OF hf rc] show ?thesis
    by (simp add: list_all_iff)
qed

text \<open>
  C6. No code cell of the three notebooks contains an exception handler, at any depth.
  Whatever the statements and the libraries do, a run of a notebook enters its cells in
  source order from the first; if it ends without an exception, every cell was entered
  and no statement raised; if it ends with an exception \<open>e\<close>, then the last event of the
  last cell entered is the statement that raised \<open>e\<close>, every statement before it ran to
  its end, and no later statement and no later cell was executed.
\<close>

theorem notebook_exceptions_propagate:
  "\<forall>nb\<in>set notebooks.
     (\<forall>c\<in>set nb. \<forall>s\<in>set c. handler_free s)
   \<and> (\<forall>I st entered st' r. run_notebook I nb st = (entered, st', r) \<longrightarrow>
         map fst entered = [0..<length entered] \<and> length entered \<le> length nb
       \<and> (\<forall>c\<in>set (butlast entered). \<forall>ev\<in>set (snd c). is_Ran ev)
       \<and> (r = None \<longrightarrow> length entered = length nb
               \<and> (\<forall>c\<in>set entered. \<forall>ev\<in>set (snd c). is_Ran ev))
       \<and> (\<forall>e. r = Some e \<longrightarrow> entered \<noteq> [] \<and> snd (last entered) \<noteq> []
               \<and> (\<exists>s. last (snd (last entered)) = Raised s e)
               \<and> (\<forall>ev\<in>set (butlast (snd (last entered))). is_Ran ev)))"
proof (rule ballI, rule conjI)
  fix nb assume "nb \<in> set notebooks"
  then show hf: "\<forall>c\<in>set nb. \<forall>s\<in>set c. handler_free s"
    using notebooks_handler_free by (auto simp: list_all_iff)
  show "\<forall>I st entered st' r. run_notebook I nb st = (entered, st', r) \<longrightarrow>
         map fst entered = [0..<length entered] \<and> length entered \<le> length nb
       \<and> (\<forall>c\<in>set (butlast entered). \<forall>ev\<in>set (snd c). is_Ran ev)
       \<and> (r = None \<longrightarrow> length entered = length nb
               \<and> (\<forall>c\<in>set entered. \<forall>ev\<in>set (snd c). is_Ran ev))
       \<and> (\<forall>e. r = Some e \<longrightarrow> entered \<noteq> [] \<and> snd (last entered) \<noteq> []
               \<and> (\<exists>s. last (snd (last entered)) = Raised s e)
               \<and> (\<forall>ev\<in>set (butlast (snd (last entered))). is_Ran ev))"
    by (intro allI impI) (rule run_notebook_unhandled [OF hf])
qed

text \<open>
  The theorem at the quasi-binomial notebook when \<open>model1.fit\<close> raises: the run ends
  in the fourth of the eight code cells, after fourteen statements, with that exception.
\<close>

lemma fit_raises_run:
  "\<exists>entered. run_notebook fit_raises quasibinomial_nb 0 = (entered, 14, Some (LibraryError ''fit''))
      \<and> length entered = 4"
  by (simp add: run_notebook_def quasibinomial_nb_def fit_raises_def)

theorem notebook_exceptions_propagate_witness:
  "quasibinomial_nb \<in> set notebooks
   \<and> (\<exists>entered. run_notebook fit_raises quasibinomial_nb 0 =
          (entered, 14, Some (LibraryError ''fit''))
        \<and> map fst entered = [0, 1, 2, 3] \<and> length entered \<le> length quasibinomial_nb
        \<and> (\<exists>s. last (snd (last entered)) = Raised s (LibraryError ''fit'')))"
proof -
  have nb: "quasibinomial_nb \<in> set notebooks"
    by (simp add: notebooks_def)
  obtain entered where run: "run_notebook fit_raises quasibinomial_nb 0 =
          (entered, 14, Some (LibraryError ''fit''))" and len: "length entered = 4"
    using fit_raises_run by blast
  note inst = notebook_exceptions_propagate [THEN bspec, OF nb, THEN conjunct2, THEN spec,
      THEN spec, THEN spec, THEN spec, THEN spec, THEN mp, OF run]
  from inst have "map fst entered = [0..<length entered]"
    and "length entered \<le> length quasibinomial_nb"
    and "\<exists>s. last (snd (last entered)) = Raised s (LibraryError ''fit'')"
    by simp_all
  with len nb run show ?thesis
    by (auto simp: upt_rec)
qed

end
